(* ===== verification/Prelude.thy ===== *)
theory Prelude
  imports Complex_Main
begin

text \<open>
  Shared vocabulary of the development. Python strings are \<open>string\<close>
  (one \<open>char\<close> per code point, restricted to Latin-1); Python's unbounded
  \<open>int\<close> is \<open>int\<close>; the exact value of a Python \<open>float\<close> is a \<open>rat\<close>, and
  \<open>pow2 k\<close> is the power of two with an integer exponent, on which the float
  model of \<^theory_text>\<open>PyFloat\<close> is built. The named collection \<open>model_simps\<close>
  gathers the equations that unfold an operation of the model into the calls it
  makes (the tool adapters of \<^theory_text>\<open>Adapter\<close> declare theirs), and
  \<open>pow2_simps\<close> the algebraic laws of \<open>pow2\<close>.
\<close>

named_theorems model_simps "equations unfolding an operation of the model into the calls it makes"
named_theorems pow2_simps "arithmetic of integer powers of two on the rationals"

type_synonym pystr = string

abbreviation pow2 :: "int \<Rightarrow> rat" where
  "pow2 k \<equiv> (2::rat) powi k"

subsection \<open>Floor of the binary logarithm of a natural number\<close>

fun nlog2 :: "nat \<Rightarrow> nat" where
  "nlog2 n = (if n < 2 then 0 else Suc (nlog2 (n div 2)))"

declare nlog2.simps [simp del]

subsection \<open>Integer powers of two\<close>

lemma pow2_add [pow2_simps]: "pow2 (j + k) = pow2 j * pow2 k"
  by (simp add: power_int_add)

lemma pow2_le_iff [simp]: "pow2 j \<le> pow2 k \<longleftrightarrow> j \<le> k"
proof
  assume "pow2 j \<le> pow2 k"
  then show "j \<le> k"
    by (metis not_le power_int_strict_increasing one_less_numeral_iff semiring_norm(76))
next
  assume "j \<le> k"
  then show "pow2 j \<le> pow2 k" by (rule power_int_increasing) simp
qed

lemma pow2_less_iff [simp]: "pow2 j < pow2 k \<longleftrightarrow> j < k"
  by (meson not_le pow2_le_iff)

lemma pow2_succ [pow2_simps]: "pow2 (k + 1) = 2 * pow2 k"
  by (simp add: pow2_add)

lemma pow2_diff [pow2_simps]: "pow2 (j - k) = pow2 j / pow2 k"
  by (simp add: power_int_diff)

lemma pow2_ge_one_iff [simp]: "1 \<le> pow2 k \<longleftrightarrow> 0 \<le> k"
  using pow2_le_iff [of 0 k] by simp

lemma pow2_eq_iff [simp]: "pow2 j = pow2 k \<longleftrightarrow> j = k"
  by (metis order.antisym order.refl pow2_le_iff)

lemma nlog2_bounds: "0 < n \<Longrightarrow> 2 ^ nlog2 n \<le> n \<and> n < 2 ^ Suc (nlog2 n)"
proof (induction n rule: nlog2.induct)
  case (1 n)
  show ?case
  proof (cases "n < 2")
    case True
    with "1.prems" show ?thesis by (simp add: nlog2.simps [of n])
  next
    case False
    with "1.IH" have "2 ^ nlog2 (n div 2) \<le> n div 2 \<and> n div 2 < 2 ^ Suc (nlog2 (n div 2))"
      by simp
    with False show ?thesis by (auto simp: nlog2.simps [of n])
  qed
qed

lemma nlog2_bounds_rat:
  assumes "0 < n"
  shows "pow2 (int (nlog2 n)) \<le> of_nat n \<and> of_nat n < pow2 (int (nlog2 n) + 1)"
proof -
  from nlog2_bounds [OF assms]
  have "(2::rat) ^ nlog2 n \<le> of_nat n" and "of_nat n < (2::rat) ^ Suc (nlog2 n)"
    by (metis of_nat_le_iff of_nat_numeral of_nat_power,
        metis of_nat_less_iff of_nat_numeral of_nat_power)
  then show ?thesis by (simp add: pow2_succ)
qed

end
