(* ===== verification/PyRuntime.thy ===== *)
theory PyRuntime
  imports Prelude
begin

text \<open>
  The parts of the Python runtime that the repository's code relies on:
  the values that cross the tool boundary (\<open>int\<close>, \<open>float\<close>, \<open>str\<close>),
  \<open>str.isspace\<close>, \<open>str.strip()\<close> and \<open>str.lower()\<close> as \<open>input().strip()\<close>
  and \<open>user_input.lower()\<close> use them, \<open>str(int)\<close> as the f-strings of
  the adapters' trace lines use it, and \<open>str.join\<close>. Characters are code
  points below 256 (Latin-1): \<open>isspace\<close> and \<open>lower\<close> are given exactly for
  that range. A \<open>float\<close> is a sign and an exact non-negative magnitude,
  so that Python's \<open>-0.0\<close> is kept apart from \<open>0.0\<close>.
\<close>

datatype pyfloat = Flt (flt_neg: bool) (flt_mag: rat)

definition flt_val :: "pyfloat \<Rightarrow> rat" where
  "flt_val f = (if flt_neg f then - flt_mag f else flt_mag f)"

datatype pyval = PyInt int | PyFloat pyfloat | PyStr pystr

text \<open>The built-in exceptions the modelled code can raise.\<close>

datatype py_exc = ZeroDivisionError | OverflowError | EOFError

definition py_exc_str :: "py_exc \<Rightarrow> pystr" where
  "py_exc_str e = (case e of
      ZeroDivisionError \<Rightarrow> ''division by zero''
    | OverflowError \<Rightarrow> ''integer division result too large for a float''
    | EOFError \<Rightarrow> ''EOF when reading a line'')"

subsection \<open>\<open>str.isspace\<close>, \<open>str.strip\<close>, \<open>str.lower\<close>\<close>

definition py_isspace :: "char \<Rightarrow> bool" where
  "py_isspace c =
     (let n = of_char c :: nat in
      (9 \<le> n \<and> n \<le> 13) \<or> (28 \<le> n \<and> n \<le> 32) \<or> n = 133 \<or> n = 160)"

definition py_lstrip :: "pystr \<Rightarrow> pystr" where
  "py_lstrip s = dropWhile py_isspace s"

definition py_rstrip :: "pystr \<Rightarrow> pystr" where
  "py_rstrip s = rev (dropWhile py_isspace (rev s))"

definition py_strip :: "pystr \<Rightarrow> pystr" where
  "py_strip s = py_rstrip (py_lstrip s)"

definition py_lower_char :: "char \<Rightarrow> char" where
  "py_lower_char c =
     (let n = of_char c :: nat in
      if (65 \<le> n \<and> n \<le> 90) \<or> (192 \<le> n \<and> n \<le> 222 \<and> n \<noteq> 215)
      then char_of (n + 32) else c)"

definition py_lower :: "pystr \<Rightarrow> pystr" where
  "py_lower s = map py_lower_char s"

subsection \<open>\<open>str(int)\<close> and \<open>str.join\<close>\<close>

definition digit_char :: "nat \<Rightarrow> char" where
  "digit_char d = char_of (48 + d)"

fun nat_digits :: "nat \<Rightarrow> pystr" where
  "nat_digits n = (if n < 10 then [digit_char n] else nat_digits (n div 10) @ [digit_char (n mod 10)])"

declare nat_digits.simps [simp del]

definition py_str_int :: "int \<Rightarrow> pystr" where
  "py_str_int i = (if i < 0 then CHR ''-'' # nat_digits (nat (- i)) else nat_digits (nat i))"

fun py_join :: "pystr \<Rightarrow> pystr list \<Rightarrow> pystr" where
  "py_join sep [] = []"
| "py_join sep [x] = x"
| "py_join sep (x # y # ys) = x @ sep @ py_join sep (y # ys)"

definition is_digit_char :: "char \<Rightarrow> bool" where
  "is_digit_char c = (let n = of_char c :: nat in 48 \<le> n \<and> n \<le> 57)"

definition parse_decimal :: "pystr \<Rightarrow> nat option" where
  "parse_decimal ds =
     (if ds \<noteq> [] \<and> list_all is_digit_char ds
      then Some (foldl (\<lambda>a c. 10 * a + (of_char c - 48)) 0 ds) else None)"

definition parse_int :: "pystr \<Rightarrow> int option" where
  "parse_int s =
     (case s of
        c # ds \<Rightarrow> if c = CHR ''-'' then map_option (\<lambda>n. - int n) (parse_decimal ds)
                 else map_option int (parse_decimal s)
      | [] \<Rightarrow> None)"

subsection \<open>Properties of \<open>strip\<close>\<close>

lemma py_strip_decomp:
  "\<exists>l r. s = l @ py_strip s @ r \<and> list_all py_isspace l \<and> list_all py_isspace r"
proof -
  let ?l = "takeWhile py_isspace s" and ?m = "dropWhile py_isspace s"
  let ?r = "rev (takeWhile py_isspace (rev ?m))"
  have m: "?m = py_rstrip ?m @ ?r"
    by (metis py_rstrip_def rev_append rev_rev_ident takeWhile_dropWhile_id)
  have "s = ?l @ ?m" by simp
  with m have "s = ?l @ py_strip s @ ?r" by (simp add: py_strip_def py_lstrip_def)
  moreover have "list_all py_isspace ?l" by (auto simp: list_all_iff dest: set_takeWhileD)
  moreover have "list_all py_isspace ?r" by (auto simp: list_all_iff dest: set_takeWhileD)
  ultimately show ?thesis by blast
qed

lemma py_rstrip_prefix: "\<exists>r. m = py_rstrip m @ r \<and> list_all py_isspace r"
proof -
  have "m = py_rstrip m @ rev (takeWhile py_isspace (rev m))"
    by (metis py_rstrip_def rev_append rev_rev_ident takeWhile_dropWhile_id)
  moreover have "list_all py_isspace (rev (takeWhile py_isspace (rev m)))"
    by (auto simp: list_all_iff dest: set_takeWhileD)
  ultimately show ?thesis by blast
qed

lemma py_strip_no_lead: "py_strip s = c # cs \<Longrightarrow> \<not> py_isspace c"
proof -
  assume eq: "py_strip s = c # cs"
  obtain r where "dropWhile py_isspace s = py_strip s @ r"
    using py_rstrip_prefix [of "dropWhile py_isspace s"] by (auto simp: py_strip_def py_lstrip_def)
  with eq have "dropWhile py_isspace s = c # (cs @ r)" by simp
  then show "\<not> py_isspace c" by (simp add: dropWhile_eq_Cons_conv)
qed

lemma py_strip_no_trail: "py_strip s = cs @ [c] \<Longrightarrow> \<not> py_isspace c"
  unfolding py_strip_def py_rstrip_def
  by (metis dropWhile_eq_Cons_conv rev_eq_Cons_iff rev_rev_ident)

lemma py_strip_pad:
  assumes "list_all py_isspace l" and "list_all py_isspace r"
    and "w = [] \<or> (\<not> py_isspace (hd w) \<and> \<not> py_isspace (last w))"
  shows "py_strip (l @ w @ r) = w"
proof -
  have lw: "dropWhile py_isspace (l @ w @ r) = (if w = [] then [] else w @ r)"
    using assms by (auto simp: list_all_iff dropWhile_append neq_Nil_conv)
  have "dropWhile py_isspace (rev (w @ r)) = rev w" if "w \<noteq> []"
  proof -
    from that assms(3) obtain v c where "w = v @ [c]" and "\<not> py_isspace c"
      by (metis append_butlast_last_id)
    with assms(2) show ?thesis by (simp add: list_all_iff dropWhile_append)
  qed
  with lw assms(2) show ?thesis
    by (auto simp: py_strip_def py_lstrip_def py_rstrip_def list_all_iff dropWhile_append)
qed

subsection \<open>Properties of \<open>lower\<close>\<close>

lemma py_lower_char_ascii_lower:
  assumes "(97::nat) \<le> of_char d" and "of_char d \<le> (122::nat)"
  shows "py_lower_char c = d \<longleftrightarrow> c = d \<or> c = char_of (of_char d - (32::nat))"
proof -
  have dc: "char_of (of_char d :: nat) = d" by simp
  have cc: "char_of (of_char c :: nat) = c" by simp
  have lt: "of_char c < (256::nat)" by (rule nat_of_char_less_256)
  show ?thesis
  proof
    assume eq: "py_lower_char c = d"
    show "c = d \<or> c = char_of (of_char d - (32::nat))"
    proof (cases "(65 \<le> (of_char c::nat) \<and> of_char c \<le> (90::nat)) \<or>
                  (192 \<le> (of_char c::nat) \<and> of_char c \<le> (222::nat) \<and> of_char c \<noteq> (215::nat))")
      case True
      with eq have "char_of (of_char c + (32::nat)) = d" by (simp add: py_lower_char_def Let_def)
      then have "of_char (char_of (of_char c + (32::nat)) :: char) = (of_char d :: nat)" by simp
      with True have "of_char c + 32 = (of_char d :: nat)"
        by (auto simp: of_char_of)
      with True assms have "of_char c = (of_char d - 32 :: nat)" by linarith
      then have "c = char_of (of_char d - (32::nat))" by (metis cc)
      then show ?thesis ..
    next
      case False
      with eq show ?thesis by (simp add: py_lower_char_def Let_def)
    qed
  next
    assume "c = d \<or> c = char_of (of_char d - (32::nat))"
    then show "py_lower_char c = d"
    proof
      assume "c = d"
      with assms show ?thesis by (simp add: py_lower_char_def Let_def)
    next
      assume c: "c = char_of (of_char d - (32::nat))"
      with assms have cd: "(of_char c :: nat) = of_char d - 32" by (simp add: of_char_of)
      with assms have "65 \<le> (of_char c :: nat) \<and> of_char c \<le> (90::nat)" by linarith
      then have "py_lower_char c = char_of (of_char c + (32::nat))"
        by (simp add: py_lower_char_def Let_def)
      also from cd assms have "(of_char c + 32 :: nat) = of_char d" by linarith
      finally show ?thesis by simp
    qed
  qed
qed

subsection \<open>\<open>str(int)\<close> round trip\<close>

lemma digit_char_code [simp]: "d < 10 \<Longrightarrow> (of_char (digit_char d) :: nat) = 48 + d"
  by (simp add: digit_char_def)

lemma nat_digits_digits: "list_all is_digit_char (nat_digits n)"
proof (induction n rule: nat_digits.induct)
  case (1 n)
  then show ?case
    by (subst nat_digits.simps) (auto simp: is_digit_char_def Let_def list_all_iff)
qed

lemma nat_digits_nonempty: "nat_digits n \<noteq> []"
  by (subst nat_digits.simps) simp

lemma nat_digits_value: "foldl (\<lambda>a c. 10 * a + (of_char c - 48)) 0 (nat_digits n) = n"
proof (induction n rule: nat_digits.induct)
  case (1 n)
  show ?case
  proof (cases "n < 10")
    case True
    then show ?thesis by (subst nat_digits.simps) simp
  next
    case False
    with "1.IH" show ?thesis by (subst nat_digits.simps) simp
  qed
qed

lemma parse_decimal_nat_digits [simp]: "parse_decimal (nat_digits n) = Some n"
  by (simp add: parse_decimal_def nat_digits_digits nat_digits_nonempty nat_digits_value)

lemma nat_digits_not_minus: "nat_digits n \<noteq> CHR ''-'' # cs"
proof
  assume "nat_digits n = CHR ''-'' # cs"
  with nat_digits_digits [of n] show False by (simp add: is_digit_char_def)
qed

lemma parse_int_py_str_int: "parse_int (py_str_int i) = Some i"
proof (cases "i < 0")
  case True
  then show ?thesis by (simp add: py_str_int_def parse_int_def)
next
  case False
  obtain c cs where nd: "nat_digits (nat i) = c # cs"
    by (meson list.exhaust nat_digits_nonempty)
  with nat_digits_not_minus [of "nat i"] have "c \<noteq> CHR ''-''" by auto
  have "parse_int (c # cs) = map_option int (parse_decimal (c # cs))"
    using \<open>c \<noteq> CHR ''-''\<close> by (simp add: parse_int_def)
  also have "\<dots> = Some (int (nat i))" by (simp flip: nd)
  finally show ?thesis using False nd by (simp add: py_str_int_def)
qed

end
