(* ===== verification/Mcp.thy ===== *)
theory Mcp
  imports PyRuntime
begin

text \<open>
  The remote-call boundary the two tool servers expose (FastMCP): a tool is
  called by name with a dictionary of arguments and answers with one value or
  one error. A server-side error (unknown tool, arguments that fail the
  declared parameter types, an exception raised by the tool's body) comes
  back as an error result; the client turns it into an exception.
  Arguments are association lists looked up with \<open>map_of\<close>, the way a
  Python dict with unique keys is read.
\<close>

type_synonym mcp_args = "(pystr \<times> pyval) list"

datatype mcp_error =
    UnknownTool pystr
  | InvalidArguments pystr
  | ToolRaised pystr py_exc

text \<open>Reading a declared \<open>int\<close> or \<open>str\<close> parameter from the argument dictionary.\<close>

definition int_arg :: "mcp_args \<Rightarrow> pystr \<Rightarrow> int option" where
  "int_arg args p = (case map_of args p of Some (PyInt i) \<Rightarrow> Some i | _ \<Rightarrow> None)"

definition str_arg :: "mcp_args \<Rightarrow> pystr \<Rightarrow> pystr option" where
  "str_arg args p = (case map_of args p of Some (PyStr s) \<Rightarrow> Some s | _ \<Rightarrow> None)"

lemma int_arg_simps [simp]:
  "int_arg ((p, PyInt i) # args) p = Some i"
  "q \<noteq> p \<Longrightarrow> int_arg ((q, v) # args) p = int_arg args p"
  by (simp_all add: int_arg_def)

lemma str_arg_simps [simp]:
  "str_arg ((p, PyStr s) # args) p = Some s"
  "q \<noteq> p \<Longrightarrow> str_arg ((q, v) # args) p = str_arg args p"
  by (simp_all add: str_arg_def)

end
