(* ===== verification/PyFloat.thy ===== *)
theory PyFloat
  imports PyRuntime
begin

text \<open>
  Python's true division of two \<open>int\<close>s, \<open>a / b\<close>, as CPython's
  \<open>long_true_divide\<close> computes it: \<open>ZeroDivisionError\<close> when \<open>b = 0\<close>;
  otherwise the IEEE-754 binary64 value nearest to the exact quotient, ties to
  even, with gradual underflow (the spacing of doubles never drops below
  \<open>2\<^sup>-\<^sup>1\<^sup>0\<^sup>7\<^sup>4\<close>), and \<open>OverflowError\<close> when that rounded value reaches
  \<open>2\<^sup>1\<^sup>0\<^sup>2\<^sup>4\<close>. The sign of the result is the exclusive or of the
  operands' signs, so \<open>0 / -5\<close> is \<open>-0.0\<close>.
  \<open>flog2 n d\<close> is \<open>\<lfloor>log\<^sub>2 (n / d)\<rfloor>\<close>, \<open>ulp_exp e\<close> the exponent of the
  spacing of doubles in the binade \<open>[2\<^sup>e, 2\<^sup>e\<^sup>+\<^sup>1)\<close>.
  The lemmas show that the result is the nearest double (\<open>int_true_div_nearest\<close>),
  exact when the quotient is a double (\<open>int_true_div_exact\<close>), always a finite
  double (\<open>int_true_div_double\<close>), and that \<open>OverflowError\<close> is raised exactly
  from \<open>2\<^sup>1\<^sup>0\<^sup>2\<^sup>4 - 2\<^sup>9\<^sup>7\<^sup>0\<close> on (\<open>int_true_div_overflow_iff\<close>).
\<close>

definition flog2 :: "nat \<Rightarrow> nat \<Rightarrow> int" where
  "flog2 n d =
     (let t = int (nlog2 n) - int (nlog2 d)
      in if pow2 t * of_nat d \<le> of_nat n then t else t - 1)"

definition round_half_even :: "rat \<Rightarrow> int" where
  "round_half_even x =
     (let f = \<lfloor>x\<rfloor>; r = x - of_int f
      in if r < 1/2 then f else if 1/2 < r then f + 1 else if even f then f else f + 1)"

definition ulp_exp :: "int \<Rightarrow> int" where
  "ulp_exp e = max (e - 52) (-1074)"

definition round_quot :: "nat \<Rightarrow> nat \<Rightarrow> rat" where
  "round_quot n d =
     (if n = 0 then 0
      else let k = ulp_exp (flog2 n d)
           in of_int (round_half_even (of_nat n / (of_nat d * pow2 k))) * pow2 k)"

definition int_true_div :: "int \<Rightarrow> int \<Rightarrow> py_exc + pyfloat" where
  "int_true_div a b =
     (if b = 0 then Inl ZeroDivisionError
      else let m = round_quot (nat \<bar>a\<bar>) (nat \<bar>b\<bar>)
           in if pow2 1024 \<le> m then Inl OverflowError
              else Inr (Flt ((a < 0) \<noteq> (b < 0)) m))"

text \<open>
  The finite doubles, as a specification: a significand below \<open>2\<^sup>5\<^sup>3\<close> in
  magnitude times a power of two no smaller than \<open>2\<^sup>-\<^sup>1\<^sup>0\<^sup>7\<^sup>4\<close>, below
  \<open>2\<^sup>1\<^sup>0\<^sup>2\<^sup>4\<close> in magnitude.
\<close>

definition is_double :: "rat \<Rightarrow> bool" where
  "is_double x \<longleftrightarrow>
     (\<exists>m k. x = of_int m * pow2 k \<and> \<bar>m\<bar> < 2 ^ 53 \<and> -1074 \<le> k) \<and> \<bar>x\<bar> < pow2 1024"

subsection \<open>Binade and rounding\<close>

lemma flog2_bounds:
  assumes "0 < n" and "0 < d"
  shows "pow2 (flog2 n d) \<le> of_nat n / of_nat d \<and> of_nat n / of_nat d < pow2 (flog2 n d + 1)"
proof -
  define t where "t = int (nlog2 n) - int (nlog2 d)"
  from nlog2_bounds_rat [OF assms(1)]
  have n1: "pow2 (int (nlog2 n)) \<le> of_nat n" and n2: "of_nat n < pow2 (int (nlog2 n) + 1)"
    by auto
  from nlog2_bounds_rat [OF assms(2)]
  have d1: "pow2 (int (nlog2 d)) \<le> of_nat d" and d2: "of_nat d < pow2 (int (nlog2 d) + 1)"
    by auto
  have dpos: "0 < (of_nat d :: rat)" using assms by simp
  have lo: "pow2 (t - 1) * of_nat d < of_nat n"
  proof -
    have "pow2 (t - 1) * of_nat d < pow2 (t - 1) * pow2 (int (nlog2 d) + 1)"
      using d2 by simp
    also have "\<dots> = pow2 (t - 1 + (int (nlog2 d) + 1))" by (rule pow2_add [symmetric])
    also have "t - 1 + (int (nlog2 d) + 1) = int (nlog2 n)" by (simp add: t_def)
    finally show ?thesis using n1 by linarith
  qed
  have hi: "of_nat n < pow2 (t + 1) * of_nat d"
  proof -
    have "int (nlog2 n) + 1 = t + 1 + int (nlog2 d)" by (simp add: t_def)
    then have "pow2 (int (nlog2 n) + 1) = pow2 (t + 1) * pow2 (int (nlog2 d))"
      by (simp only: pow2_add)
    also have "\<dots> \<le> pow2 (t + 1) * of_nat d" using d1 by simp
    finally show ?thesis using n2 by linarith
  qed
  show ?thesis
  proof (cases "pow2 t * of_nat d \<le> of_nat n")
    case True
    then have "flog2 n d = t" by (simp add: flog2_def t_def Let_def)
    with True hi dpos show ?thesis by (simp add: pos_le_divide_eq pos_divide_less_eq)
  next
    case False
    then have "flog2 n d = t - 1" by (simp add: flog2_def t_def Let_def)
    with False lo dpos show ?thesis by (simp add: pos_le_divide_eq pos_divide_less_eq)
  qed
qed

lemma round_half_even_between:
  "\<bar>x - of_int (round_half_even x)\<bar> \<le> x - of_int \<lfloor>x\<rfloor> \<and>
   \<bar>x - of_int (round_half_even x)\<bar> \<le> of_int \<lfloor>x\<rfloor> + 1 - x"
proof -
  have "of_int \<lfloor>x\<rfloor> \<le> x" and "x < of_int \<lfloor>x\<rfloor> + 1"
    using floor_correct [of x] by simp_all
  then show ?thesis unfolding round_half_even_def Let_def by auto
qed

lemma round_half_even_nearest: "\<bar>x - of_int (round_half_even x)\<bar> \<le> \<bar>x - of_int z\<bar>"
proof (cases "z \<le> \<lfloor>x\<rfloor>")
  case True
  then have "of_int z \<le> x" by (meson le_floor_iff)
  with True have "x - of_int \<lfloor>x\<rfloor> \<le> \<bar>x - of_int z\<bar>" by simp
  then show ?thesis using round_half_even_between [of x] by linarith
next
  case False
  then have "of_int \<lfloor>x\<rfloor> + 1 \<le> (of_int z :: rat)" by linarith
  then have "of_int \<lfloor>x\<rfloor> + 1 - x \<le> \<bar>x - of_int z\<bar>" by linarith
  then show ?thesis using round_half_even_between [of x] by linarith
qed

lemma round_half_even_half: "\<bar>x - of_int (round_half_even x)\<bar> \<le> 1 / 2"
  using round_half_even_between [of x] by linarith

lemma round_half_even_le: "x < of_int z + 1/2 \<Longrightarrow> round_half_even x \<le> z"
proof -
  assume x: "x < of_int z + 1/2"
  have f: "of_int \<lfloor>x\<rfloor> \<le> x" "x < of_int \<lfloor>x\<rfloor> + 1" using floor_correct [of x] by simp_all
  have "\<lfloor>x\<rfloor> \<le> z" using x by (simp add: floor_le_iff)
  then consider "\<lfloor>x\<rfloor> = z" | "\<lfloor>x\<rfloor> + 1 \<le> z" by linarith
  then show ?thesis
  proof cases
    case 1
    with x show ?thesis unfolding round_half_even_def Let_def by auto
  next
    case 2
    then show ?thesis unfolding round_half_even_def Let_def by auto
  qed
qed

lemma round_half_even_ge: "of_int z \<le> x \<Longrightarrow> z \<le> round_half_even x"
proof -
  assume x: "of_int z \<le> x"
  then have "z \<le> \<lfloor>x\<rfloor>" by (simp add: le_floor_iff)
  then show ?thesis unfolding round_half_even_def Let_def by auto
qed

lemma round_half_even_ge_tie:
  assumes "even z" and "of_int z - 1/2 \<le> x"
  shows "z \<le> round_half_even x"
proof (cases "of_int z \<le> x")
  case True
  then show ?thesis by (rule round_half_even_ge)
next
  case False
  then have "x < of_int z" by simp
  then have fl: "\<lfloor>x\<rfloor> = z - 1" using assms(2) by (simp add: floor_eq_iff)
  with assms show ?thesis unfolding round_half_even_def Let_def by auto
qed

subsection \<open>Correct rounding of the quotient\<close>

lemma round_quot_multiple_nearest:
  assumes "0 < n" and "0 < d"
  shows "\<bar>round_quot n d - of_nat n / of_nat d\<bar>
         \<le> \<bar>of_int z * pow2 (ulp_exp (flog2 n d)) - of_nat n / of_nat d\<bar>"
proof -
  define k where "k = ulp_exp (flog2 n d)"
  define x where "x = (of_nat n / of_nat d :: rat)"
  define s where "s = x / pow2 k"
  have xs: "x = s * pow2 k" by (simp add: s_def)
  have rq: "round_quot n d = of_int (round_half_even s) * pow2 k"
    using assms by (simp add: round_quot_def k_def s_def x_def Let_def)
  have "\<bar>round_quot n d - x\<bar> = \<bar>s - of_int (round_half_even s)\<bar> * pow2 k"
    by (simp add: rq xs abs_mult abs_minus_commute flip: left_diff_distrib)
  also have "\<dots> \<le> \<bar>s - of_int z\<bar> * pow2 k"
    by (simp add: round_half_even_nearest)
  also have "\<dots> = \<bar>of_int z * pow2 k - x\<bar>"
    by (simp add: xs abs_mult abs_minus_commute flip: left_diff_distrib)
  finally show ?thesis by (simp add: x_def k_def)
qed

lemma round_quot_nearest:
  assumes "0 < d" and "\<bar>m\<bar> < 2 ^ 53" and "-1074 \<le> j"
  shows "\<bar>round_quot n d - of_nat n / of_nat d\<bar> \<le> \<bar>of_int m * pow2 j - of_nat n / of_nat d\<bar>"
proof (cases "n = 0")
  case True
  then show ?thesis by (simp add: round_quot_def)
next
  case False
  then have n: "0 < n" by simp
  define x where "x = (of_nat n / of_nat d :: rat)"
  define e where "e = flog2 n d"
  define k where "k = ulp_exp e"
  have xe: "pow2 e \<le> x" using flog2_bounds [OF n assms(1)] by (simp add: e_def x_def)
  show ?thesis
  proof (cases "k \<le> j")
    case True
    have "pow2 j = pow2 (j - k) * pow2 k" by (simp flip: pow2_add)
    also have "pow2 (j - k) = 2 ^ nat (j - k)" using True by (simp add: power_int_nonneg_exp)
    finally have eq: "of_int m * pow2 j = of_int (m * 2 ^ nat (j - k)) * pow2 k" by simp
    have "\<bar>round_quot n d - x\<bar> \<le> \<bar>of_int (m * 2 ^ nat (j - k)) * pow2 k - x\<bar>"
      unfolding k_def e_def x_def by (rule round_quot_multiple_nearest [OF n assms(1)])
    then show ?thesis by (simp only: eq x_def)
  next
    case False
    with assms(3) have k: "k = e - 52" by (simp add: k_def ulp_exp_def)
    have "\<bar>of_int m * pow2 j\<bar> = of_int \<bar>m\<bar> * pow2 j" by (simp add: abs_mult)
    also have "\<dots> < 2 ^ 53 * pow2 j"
    proof -
      have "(of_int \<bar>m\<bar> :: rat) < 2 ^ 53" using assms(2) by (metis of_int_less_iff of_int_numeral of_int_power)
      then show ?thesis by simp
    qed
    also have "(2::rat) ^ 53 * pow2 j = pow2 (53 + j)" by (simp add: pow2_add)
    also have "\<dots> \<le> pow2 e" using False k by simp
    finally have lt: "of_int m * pow2 j < pow2 e" by linarith
    have "pow2 e = pow2 (52 + k)" using k by simp
    also have "\<dots> = of_int (2 ^ 52) * pow2 k" by (simp add: pow2_add)
    finally have "pow2 e = of_int (2 ^ 52) * pow2 k" .
    then have "\<bar>round_quot n d - x\<bar> \<le> \<bar>pow2 e - x\<bar>"
      using round_quot_multiple_nearest [OF n assms(1), of "2 ^ 52"] by (simp add: x_def k_def e_def)
    also have "\<dots> \<le> \<bar>of_int m * pow2 j - x\<bar>" using xe lt by linarith
    finally show ?thesis by (simp add: x_def)
  qed
qed

subsection \<open>Range of the rounded quotient: finite doubles and overflow\<close>

lemma round_quot_scaled:
  assumes "0 < n"
  shows "round_quot n d =
           of_int (round_half_even (of_nat n / of_nat d / pow2 (ulp_exp (flog2 n d))))
           * pow2 (ulp_exp (flog2 n d))"
  using assms by (simp add: round_quot_def Let_def divide_divide_eq_left)

lemma round_quot_significand:
  assumes "0 < n" and "0 < d"
  shows "0 \<le> round_half_even (of_nat n / of_nat d / pow2 (ulp_exp (flog2 n d))) \<and>
         round_half_even (of_nat n / of_nat d / pow2 (ulp_exp (flog2 n d))) \<le> 2 ^ 53"
proof -
  define e where "e = flog2 n d"
  define k where "k = ulp_exp e"
  define x where "x = (of_nat n / of_nat d :: rat)"
  have x: "0 \<le> x" "x < pow2 (e + 1)"
    using flog2_bounds [OF assms] by (simp_all add: x_def e_def)
  have "e + 1 \<le> 53 + k" by (simp add: k_def ulp_exp_def)
  then have "pow2 (e + 1) \<le> pow2 (53 + k)" by simp
  also have "\<dots> = 2 ^ 53 * pow2 k" by (simp add: pow2_add)
  finally have "x / pow2 k < 2 ^ 53" using x(2) by (simp add: divide_less_eq)
  moreover have "(of_int (2 ^ 53) :: rat) = 2 ^ 53" by simp
  ultimately have "x / pow2 k < of_int (2 ^ 53) + 1/2" by linarith
  then have up: "round_half_even (x / pow2 k) \<le> 2 ^ 53" by (rule round_half_even_le)
  have "of_int 0 \<le> x / pow2 k" using x(1) by simp
  then have "0 \<le> round_half_even (x / pow2 k)" by (rule round_half_even_ge)
  with up show ?thesis by (simp add: x_def k_def e_def)
qed

lemma round_quot_double:
  assumes "0 < d"
  shows "\<exists>m k. round_quot n d = of_int m * pow2 k \<and> \<bar>m\<bar> < 2 ^ 53 \<and> -1074 \<le> k"
proof (cases "n = 0")
  case True
  then show ?thesis by (intro exI [of _ 0]) (simp add: round_quot_def)
next
  case False
  then have n: "0 < n" by simp
  define k where "k = ulp_exp (flog2 n d)"
  define r where "r = round_half_even (of_nat n / of_nat d / pow2 k)"
  have rq: "round_quot n d = of_int r * pow2 k"
    using round_quot_scaled [OF n] by (simp add: r_def k_def)
  have r: "0 \<le> r" "r \<le> 2 ^ 53"
    using round_quot_significand [OF n assms] by (simp_all add: r_def k_def)
  have k: "-1074 \<le> k" by (simp add: k_def ulp_exp_def)
  show ?thesis
  proof (cases "r = 2 ^ 53")
    case True
    have "round_quot n d = of_int (2 * 2 ^ 52) * pow2 k" by (simp add: rq True)
    also have "\<dots> = of_int (2 ^ 52) * pow2 (k + 1)" by (simp add: pow2_succ)
    finally have "round_quot n d = of_int (2 ^ 52) * pow2 (k + 1)" .
    moreover have "\<bar>(2::int) ^ 52\<bar> < 2 ^ 53" by simp
    moreover have "-1074 \<le> k + 1" using k by simp
    ultimately show ?thesis by blast
  next
    case False
    with r have "\<bar>r\<bar> < 2 ^ 53" by simp
    with rq k show ?thesis by blast
  qed
qed

lemma round_quot_overflow:
  assumes "0 < d"
  shows "pow2 1024 \<le> round_quot n d \<longleftrightarrow> pow2 1024 - pow2 970 \<le> of_nat n / of_nat d"
proof (cases "n = 0")
  case True
  have "pow2 970 < pow2 1024" by (rule pow2_less_iff [THEN iffD2]) simp
  moreover have "0 < pow2 1024" by simp
  ultimately show ?thesis using True by (simp add: round_quot_def)
next
  case False
  then have n: "0 < n" by simp
  define e where "e = flog2 n d"
  define k where "k = ulp_exp e"
  define x where "x = (of_nat n / of_nat d :: rat)"
  define r where "r = round_half_even (x / pow2 k)"
  have rq: "round_quot n d = of_int r * pow2 k"
    using round_quot_scaled [OF n] by (simp add: r_def k_def e_def x_def)
  have xb: "pow2 e \<le> x" "x < pow2 (e + 1)"
    using flog2_bounds [OF n assms] by (simp_all add: x_def e_def)
  have r53: "r \<le> 2 ^ 53"
    using round_quot_significand [OF n assms] by (simp add: r_def k_def e_def x_def)
  have p970: "0 < pow2 970" by simp
  consider (hi) "1024 \<le> e" | (top) "e = 1023" | (lo) "e \<le> 1022" by linarith
  then show ?thesis
  proof cases
    case hi
    then have k: "k = e - 52" by (simp add: k_def ulp_exp_def)
    have "pow2 52 = pow2 e / pow2 k" by (simp add: k flip: pow2_diff)
    also have "\<dots> \<le> x / pow2 k" using xb(1) by (simp add: divide_right_mono)
    finally have "of_int (2 ^ 52) \<le> x / pow2 k" by simp
    then have "2 ^ 52 \<le> r" unfolding r_def by (rule round_half_even_ge)
    then have r52: "(2 ^ 52 :: rat) * pow2 k \<le> of_int r * pow2 k"
      by (simp add: mult_right_mono)
    have e52: "(2 ^ 52 :: rat) * pow2 k = pow2 e"
    proof -
      have "pow2 52 * pow2 k = pow2 e" by (simp only: pow2_add [symmetric] k) simp
      then show ?thesis by simp
    qed
    have h1024: "pow2 1024 \<le> pow2 e" by (rule pow2_le_iff [THEN iffD2]) (use hi in simp)
    have "pow2 1024 \<le> pow2 e" by (rule h1024)
    also have "\<dots> = (2 ^ 52 :: rat) * pow2 k" by (rule e52 [symmetric])
    also have "\<dots> \<le> of_int r * pow2 k" by (rule r52)
    finally have "pow2 1024 \<le> round_quot n d" by (simp only: rq)
    moreover have "pow2 1024 - pow2 970 \<le> x" using h1024 xb(1) p970 by linarith
    ultimately show ?thesis by (simp add: x_def)
  next
    case top
    then have k: "k = 971" by (simp add: k_def ulp_exp_def)
    define P where "P = pow2 971"
    have P: "0 < P" by (simp add: P_def)
    have "pow2 1024 = pow2 53 * P" by (simp add: P_def flip: pow2_add)
    then have p1024: "pow2 1024 = 2 ^ 53 * P" by simp
    have "P = 2 * pow2 970" unfolding P_def using pow2_succ [of 970] by simp
    then have T: "pow2 1024 - pow2 970 = (2 ^ 53 - 1/2) * P" by (simp add: p1024 algebra_simps)
    have xs: "x = (x / P) * P" using P by simp
    have r_def': "r = round_half_even (x / P)" by (simp add: r_def k P_def)
    have "pow2 1024 \<le> round_quot n d \<longleftrightarrow> (2 ^ 53 :: rat) \<le> of_int r"
      using P by (simp add: rq k p1024 flip: P_def)
    also have "\<dots> \<longleftrightarrow> 2 ^ 53 \<le> r" by (metis of_int_le_iff of_int_numeral of_int_power)
    also have "\<dots> \<longleftrightarrow> 2 ^ 53 - 1/2 \<le> x / P"
    proof
      assume "2 ^ 53 \<le> r"
      show "2 ^ 53 - 1/2 \<le> x / P"
      proof (rule ccontr)
        assume "\<not> 2 ^ 53 - 1/2 \<le> x / P"
        then have "x / P < of_int (2 ^ 53 - 1) + 1/2" by simp
        then have "r \<le> 2 ^ 53 - 1" unfolding r_def' by (rule round_half_even_le)
        with \<open>2 ^ 53 \<le> r\<close> show False by simp
      qed
    next
      assume "2 ^ 53 - 1/2 \<le> x / P"
      then have "of_int (2 ^ 53) - 1/2 \<le> x / P" by simp
      then show "2 ^ 53 \<le> r" unfolding r_def' by (rule round_half_even_ge_tie [rotated]) simp
    qed
    also have "\<dots> \<longleftrightarrow> (2 ^ 53 - 1/2) * P \<le> x" using P by (simp add: le_divide_eq)
    finally show ?thesis by (simp only: T x_def)
  next
    case lo
    have "k \<le> 970" using lo by (simp add: k_def ulp_exp_def)
    have "round_quot n d \<le> 2 ^ 53 * pow2 k"
      using r53 by (simp add: rq mult_right_mono)
    also have "\<dots> = pow2 (53 + k)" by (simp add: pow2_add)
    also have "\<dots> \<le> pow2 1023" by (rule pow2_le_iff [THEN iffD2]) (use \<open>k \<le> 970\<close> in simp)
    finally have lhs: "round_quot n d \<le> pow2 1023" .
    have p2: "pow2 1024 = 2 * pow2 1023" using pow2_succ [of 1023] by simp
    have "pow2 970 \<le> pow2 1023" by (rule pow2_le_iff [THEN iffD2]) simp
    moreover have "x < pow2 1023"
    proof -
      have "pow2 (e + 1) \<le> pow2 1023" by (rule pow2_le_iff [THEN iffD2]) (use lo in simp)
      with xb(2) show ?thesis by linarith
    qed
    moreover have "0 < pow2 1023" by simp
    ultimately have "\<not> pow2 1024 \<le> round_quot n d" and "\<not> pow2 1024 - pow2 970 \<le> x"
      using lhs p2 by linarith+
    then show ?thesis by (simp only: x_def)
  qed
qed

subsection \<open>The quotient of two integers\<close>

lemma int_quot_sign:
  "of_int a / of_int b =
     (if (a < 0) \<noteq> (b < 0) then - (of_nat (nat \<bar>a\<bar>) / of_nat (nat \<bar>b\<bar>))
      else (of_nat (nat \<bar>a\<bar>) / of_nat (nat \<bar>b\<bar>) :: rat))"
  by (cases "a < 0"; cases "b < 0") (simp_all add: divide_simps)

lemma int_true_div_InrE:
  assumes "int_true_div a b = Inr f"
  shows "b \<noteq> 0 \<and> f = Flt ((a < 0) \<noteq> (b < 0)) (round_quot (nat \<bar>a\<bar>) (nat \<bar>b\<bar>))
         \<and> round_quot (nat \<bar>a\<bar>) (nat \<bar>b\<bar>) < pow2 1024"
  using assms by (auto simp: int_true_div_def Let_def split: if_splits)

lemma int_true_div_nearest:
  assumes "int_true_div a b = Inr f" and "\<bar>m\<bar> < 2 ^ 53" and "-1074 \<le> j"
  shows "\<bar>flt_val f - of_int a / of_int b\<bar> \<le> \<bar>of_int m * pow2 j - of_int a / of_int b\<bar>"
proof -
  define n where "n = nat \<bar>a\<bar>"
  define d where "d = nat \<bar>b\<bar>"
  define x where "x = (of_nat n / of_nat d :: rat)"
  from int_true_div_InrE [OF assms(1)]
  have b: "b \<noteq> 0" and f: "f = Flt ((a < 0) \<noteq> (b < 0)) (round_quot n d)"
    by (simp_all add: n_def d_def)
  have d: "0 < d" using b by (simp add: d_def)
  have "\<bar>flt_val f - of_int a / of_int b\<bar> = \<bar>round_quot n d - x\<bar>"
    by (simp add: f flt_val_def int_quot_sign [of a b] x_def n_def d_def abs_minus_commute)
  also have "\<dots> \<le> \<bar>of_int \<bar>m\<bar> * pow2 j - x\<bar>"
    using round_quot_nearest [OF d _ assms(3), of "\<bar>m\<bar>" n] assms(2) by (simp add: x_def)
  also have "of_int \<bar>m\<bar> * pow2 j = \<bar>of_int m * pow2 j\<bar>" by (simp add: abs_mult)
  also have "x = \<bar>of_int a / of_int b\<bar>"
    by (simp add: int_quot_sign [of a b] x_def n_def d_def)
  also have "\<bar>\<bar>of_int m * pow2 j\<bar> - \<bar>of_int a / of_int b\<bar>\<bar> \<le> \<bar>of_int m * pow2 j - of_int a / of_int b\<bar>"
    by (rule abs_triangle_ineq3)
  finally show ?thesis .
qed

subsection \<open>Exact quotients\<close>

lemma round_quot_exact:
  assumes "0 < d" and "\<bar>m\<bar> < 2 ^ 53" and "-1074 \<le> j"
    and "of_nat n / of_nat d = of_int m * pow2 j"
  shows "round_quot n d = of_nat n / of_nat d"
  using round_quot_nearest [OF assms(1-3), of n] assms(4) by simp

lemma int_true_div_exact:
  assumes "b \<noteq> 0" and "of_int a / of_int b = of_int m * pow2 j"
    and "\<bar>m\<bar> < 2 ^ 53" and "-1074 \<le> j" and "j \<le> 971"
  shows "\<exists>f. int_true_div a b = Inr f \<and> flt_val f = of_int a / of_int b"
proof -
  define n where "n = nat \<bar>a\<bar>"
  define d where "d = nat \<bar>b\<bar>"
  have d: "0 < d" using assms(1) by (simp add: d_def)
  have nd: "of_nat n / of_nat d = \<bar>of_int a / of_int b :: rat\<bar>"
    by (simp add: int_quot_sign [of a b] n_def d_def)
  also have "\<dots> = of_int \<bar>m\<bar> * pow2 j" using assms(2) by (simp add: abs_mult)
  finally have nd': "of_nat n / of_nat d = of_int \<bar>m\<bar> * pow2 j" .
  have r: "round_quot n d = of_nat n / of_nat d"
    by (rule round_quot_exact [OF d _ assms(4) nd']) (use assms(3) in simp)
  have "(of_int \<bar>m\<bar> :: rat) < 2 ^ 53"
    using assms(3) by (metis of_int_less_iff of_int_numeral of_int_power)
  then have "of_int \<bar>m\<bar> * pow2 j < 2 ^ 53 * pow2 j" by simp
  also have "(2::rat) ^ 53 * pow2 j = pow2 (53 + j)" by (simp add: pow2_add)
  also have "\<dots> \<le> pow2 1024" by (subst pow2_le_iff) (use assms(5) in simp)
  finally have small: "round_quot n d < pow2 1024" using r nd' by simp
  let ?f = "Flt ((a < 0) \<noteq> (b < 0)) (round_quot n d)"
  have "int_true_div a b = Inr ?f"
    using assms(1) small by (simp add: int_true_div_def n_def d_def Let_def)
  moreover have "flt_val ?f = of_int a / of_int b"
    using r by (simp add: flt_val_def int_quot_sign [of a b] n_def d_def)
  ultimately show ?thesis by blast
qed

subsection \<open>Overflow and representability of the quotient\<close>

lemma int_true_div_overflow_iff:
  "int_true_div a b = Inl OverflowError \<longleftrightarrow>
   b \<noteq> 0 \<and> pow2 1024 - pow2 970 \<le> \<bar>of_int a / of_int b\<bar>"
proof (cases "b = 0")
  case True
  then show ?thesis by (simp add: int_true_div_def)
next
  case False
  then have d: "0 < nat \<bar>b\<bar>" by simp
  have q: "\<bar>of_int a / of_int b :: rat\<bar> = of_nat (nat \<bar>a\<bar>) / of_nat (nat \<bar>b\<bar>)"
    by (simp add: int_quot_sign [of a b])
  have "int_true_div a b = Inl OverflowError \<longleftrightarrow> pow2 1024 \<le> round_quot (nat \<bar>a\<bar>) (nat \<bar>b\<bar>)"
    using False by (simp add: int_true_div_def Let_def)
  also have "\<dots> \<longleftrightarrow> pow2 1024 - pow2 970 \<le> of_nat (nat \<bar>a\<bar>) / of_nat (nat \<bar>b\<bar>)"
    by (rule round_quot_overflow [OF d])
  finally show ?thesis using False by (simp only: q) simp
qed

lemma int_true_div_double:
  assumes "int_true_div a b = Inr f"
  shows "is_double (flt_val f)"
proof -
  from int_true_div_InrE [OF assms]
  have b: "b \<noteq> 0" and f: "f = Flt ((a < 0) \<noteq> (b < 0)) (round_quot (nat \<bar>a\<bar>) (nat \<bar>b\<bar>))"
    and lt: "round_quot (nat \<bar>a\<bar>) (nat \<bar>b\<bar>) < pow2 1024" by simp_all
  from b have "0 < nat \<bar>b\<bar>" by simp
  from round_quot_double [OF this, of "nat \<bar>a\<bar>"] obtain m k where
    rq: "round_quot (nat \<bar>a\<bar>) (nat \<bar>b\<bar>) = of_int m * pow2 k" and m: "\<bar>m\<bar> < 2 ^ 53" and k: "-1074 \<le> k"
    by blast
  have nn: "0 \<le> round_quot (nat \<bar>a\<bar>) (nat \<bar>b\<bar>)"
    by (simp add: round_quot_def Let_def round_half_even_ge)
  have "\<bar>flt_val f\<bar> = round_quot (nat \<bar>a\<bar>) (nat \<bar>b\<bar>)" using nn by (simp add: f flt_val_def)
  with lt have small: "\<bar>flt_val f\<bar> < pow2 1024" by simp
  obtain m' where v: "flt_val f = of_int m' * pow2 k" and m': "\<bar>m'\<bar> < 2 ^ 53"
  proof (cases "(a < 0) \<noteq> (b < 0)")
    case True
    then have "flt_val f = of_int (- m) * pow2 k" by (simp add: f flt_val_def rq)
    moreover have "\<bar>- m\<bar> < 2 ^ 53" using m by simp
    ultimately show ?thesis by (rule that)
  next
    case False
    then have "flt_val f = of_int m * pow2 k" by (simp add: f flt_val_def rq)
    then show ?thesis using m by (rule that)
  qed
  with k small show ?thesis unfolding is_double_def by blast
qed

end
