(* ===== verification/Calculator.thy ===== *)
theory Calculator
  imports Mcp PyFloat
begin

text \<open>
  The calculator server, \<open>src/server_calculator.py\<close>: four tools over Python
  integers registered on \<open>FastMCP("calculator")\<close>. \<open>add\<close>, \<open>subtract\<close> and
  \<open>multiply\<close> are exact on unbounded integers. \<open>divide\<close> (here \<open>divide'\<close>,
  since \<open>divide\<close> is HOL's division) returns the string
  \<open>"Error: Cannot divide by zero."\<close> as a normal value when \<open>b == 0\<close>, and
  otherwise Python's true division \<open>a / b\<close>, which may raise
  \<open>OverflowError\<close>. The server answers a call by looking the tool up by name
  and reading the two \<open>int\<close> parameters \<open>a\<close> and \<open>b\<close>.
\<close>

definition add :: "int \<Rightarrow> int \<Rightarrow> pyval" where
  "add a b = PyInt (a + b)"

definition subtract :: "int \<Rightarrow> int \<Rightarrow> pyval" where
  "subtract a b = PyInt (a - b)"

definition multiply :: "int \<Rightarrow> int \<Rightarrow> pyval" where
  "multiply a b = PyInt (a * b)"

definition divide_by_zero_msg :: pystr where
  "divide_by_zero_msg = ''Error: Cannot divide by zero.''"

definition divide' :: "int \<Rightarrow> int \<Rightarrow> py_exc + pyval" where
  "divide' a b =
     (if b = 0 then Inr (PyStr divide_by_zero_msg)
      else case int_true_div a b of Inl e \<Rightarrow> Inl e | Inr f \<Rightarrow> Inr (PyFloat f))"

definition calculator_tools :: "(pystr \<times> (int \<Rightarrow> int \<Rightarrow> py_exc + pyval)) list" where
  "calculator_tools =
     [(''add'', \<lambda>a b. Inr (add a b)), (''subtract'', \<lambda>a b. Inr (subtract a b)),
      (''multiply'', \<lambda>a b. Inr (multiply a b)), (''divide'', divide')]"

definition calculator_call :: "pystr \<Rightarrow> mcp_args \<Rightarrow> mcp_error + pyval" where
  "calculator_call name args =
     (case map_of calculator_tools name of
        None \<Rightarrow> Inl (UnknownTool name)
      | Some f \<Rightarrow>
          (case (int_arg args ''a'', int_arg args ''b'') of
             (Some a, Some b) \<Rightarrow> (case f a b of Inl e \<Rightarrow> Inl (ToolRaised name e) | Inr v \<Rightarrow> Inr v)
           | _ \<Rightarrow> Inl (InvalidArguments name)))"

subsection \<open>Properties of the calculator server\<close>

lemma calculator_call_divide:
  "calculator_call ''divide'' [(''a'', PyInt a), (''b'', PyInt b)] =
     (case divide' a b of Inl e \<Rightarrow> Inl (ToolRaised ''divide'' e) | Inr v \<Rightarrow> Inr v)"
  by (simp add: calculator_call_def calculator_tools_def)

text \<open>C3: the calculator server answers add, subtract and multiply with the exact integer
  result, for all Python integers (no overflow, no failure mode).\<close>

theorem calculator_arith_exact:
  "calculator_call ''add'' [(''a'', PyInt a), (''b'', PyInt b)] = Inr (PyInt (a + b)) \<and>
   calculator_call ''subtract'' [(''a'', PyInt a), (''b'', PyInt b)] = Inr (PyInt (a - b)) \<and>
   calculator_call ''multiply'' [(''a'', PyInt a), (''b'', PyInt b)] = Inr (PyInt (a * b))"
  by (simp add: calculator_call_def calculator_tools_def add_def subtract_def multiply_def)

text \<open>C1: division by zero is not an exception: for every dividend, the divide tool returns
  the exact string "Error: Cannot divide by zero." as its normal result.\<close>

theorem divide_by_zero_value:
  "calculator_call ''divide'' [(''a'', PyInt a), (''b'', PyInt 0)] =
     Inr (PyStr ''Error: Cannot divide by zero.'')"
  by (simp add: calculator_call_divide divide'_def divide_by_zero_msg_def)

text \<open>C2: when the divide tool returns a float, that float is nearest to the exact quotient
  a / b among all finite doubles m * 2^j (|m| < 2^53, j >= -1074): Python's true division
  is correctly rounded.\<close>

theorem divide_correctly_rounded:
  assumes "calculator_call ''divide'' [(''a'', PyInt a), (''b'', PyInt b)] = Inr (PyFloat f)"
    and "\<bar>m\<bar> < 2 ^ 53" and "-1074 \<le> j"
  shows "\<bar>flt_val f - of_int a / of_int b\<bar> \<le> \<bar>of_int m * pow2 j - of_int a / of_int b\<bar>"
proof -
  from assms(1) have "int_true_div a b = Inr f"
    by (auto simp: calculator_call_divide divide'_def split: if_splits sum.splits)
  then show ?thesis using assms(2,3) by (rule int_true_div_nearest)
qed

theorem divide_correctly_rounded_witness:
  "calculator_call ''divide'' [(''a'', PyInt 1), (''b'', PyInt 3)] =
     Inr (PyFloat (Flt False (6004799503160661 / 18014398509481984))) \<and>
   \<bar>(6004799503160661 / 18014398509481984) - of_int 1 / of_int 3\<bar>
     \<le> \<bar>of_int 6004799503160662 * pow2 (-54) - of_int 1 / of_int (3::int) :: rat\<bar>"
proof -
  have c: "calculator_call ''divide'' [(''a'', PyInt 1), (''b'', PyInt 3)] =
     Inr (PyFloat (Flt False (6004799503160661 / 18014398509481984)))" by code_simp
  have "\<bar>(6004799503160662::int)\<bar> < 2 ^ 53" by simp
  from divide_correctly_rounded [OF c this, of "-54"] c show ?thesis by (simp add: flt_val_def)
qed

text \<open>C22: when the exact quotient a / b is itself a finite double, the divide tool returns it
  exactly (with the sign of the operands), and does not raise.\<close>

theorem divide_exact_when_representable:
  assumes "b \<noteq> 0" and "of_int a / of_int b = of_int m * pow2 j"
    and "\<bar>m\<bar> < 2 ^ 53" and "-1074 \<le> j" and "j \<le> 971"
  shows "\<exists>f. calculator_call ''divide'' [(''a'', PyInt a), (''b'', PyInt b)] = Inr (PyFloat f)
             \<and> flt_val f = of_int a / of_int b"
  using int_true_div_exact [OF assms] assms(1)
  by (auto simp: calculator_call_divide divide'_def)

theorem divide_exact_witness:
  "\<exists>f. calculator_call ''divide'' [(''a'', PyInt 0), (''b'', PyInt (-5))] = Inr (PyFloat f)
       \<and> flt_val f = of_int 0 / of_int (-5)"
  using divide_exact_when_representable [of "-5" 0 0 0] by simp

text \<open>C4: the divide tool raises OverflowError exactly when b is not zero and the exact
  quotient is at least 2^1024 - 2^970 in magnitude, the midpoint between the largest finite
  double and 2^1024 (at the midpoint, ties to even round up to 2^1024).\<close>

theorem divide_overflow_iff:
  "calculator_call ''divide'' [(''a'', PyInt a), (''b'', PyInt b)] = Inl (ToolRaised ''divide'' OverflowError)
   \<longleftrightarrow> b \<noteq> 0 \<and> pow2 1024 - pow2 970 \<le> \<bar>of_int a / of_int b\<bar>"
proof -
  have "calculator_call ''divide'' [(''a'', PyInt a), (''b'', PyInt b)] = Inl (ToolRaised ''divide'' OverflowError)
        \<longleftrightarrow> b \<noteq> 0 \<and> int_true_div a b = Inl OverflowError"
    by (auto simp: calculator_call_divide divide'_def split: sum.splits)
  then show ?thesis by (simp only: int_true_div_overflow_iff) blast
qed

text \<open>C23: every float the divide tool returns is a finite double: a significand below 2^53
  times a power of two no smaller than 2^-1074, below 2^1024 in magnitude.\<close>

theorem divide_returns_double:
  "calculator_call ''divide'' [(''a'', PyInt a), (''b'', PyInt b)] = Inr (PyFloat f) \<Longrightarrow> is_double (flt_val f)"
  by (rule int_true_div_double) (auto simp: calculator_call_divide divide'_def split: if_splits sum.splits)

theorem divide_returns_double_witness:
  "calculator_call ''divide'' [(''a'', PyInt (-7)), (''b'', PyInt 10)] =
     Inr (PyFloat (Flt True (3152519739159347 / 4503599627370496))) \<and>
   is_double (flt_val (Flt True (3152519739159347 / 4503599627370496)))"
proof -
  have c: "calculator_call ''divide'' [(''a'', PyInt (-7)), (''b'', PyInt 10)] =
     Inr (PyFloat (Flt True (3152519739159347 / 4503599627370496)))" by code_simp
  from divide_returns_double [OF c] c show ?thesis by simp
qed

end
