(* ===== verification/Notes.thy ===== *)
theory Notes
  imports Mcp
begin

text \<open>
  The notes server, \<open>server_notes.py\<close>. The file is not part of \<open>src/\<close>; it
  is modelled from the specification (section 4.1): one in-process list of
  strings, \<open>add_note(message)\<close> appends and returns a confirmation string,
  \<open>read_notes()\<close> returns the notes joined with newlines, or a fixed message
  when there are none. The exact texts of the confirmation and of the empty
  message are not given by the specification; they are named constants here
  and no property depends on their wording beyond being fixed.
\<close>

definition note_added_msg :: pystr where
  "note_added_msg = ''Note added.''"

definition no_notes_msg :: pystr where
  "no_notes_msg = ''No notes found.''"

definition add_note :: "pystr \<Rightarrow> pystr list \<Rightarrow> pystr list \<times> pyval" where
  "add_note m ns = (ns @ [m], PyStr note_added_msg)"

definition read_notes :: "pystr list \<Rightarrow> pyval" where
  "read_notes ns = PyStr (if ns = [] then no_notes_msg else py_join ''\<newline>'' ns)"

definition notes_call :: "pystr \<Rightarrow> mcp_args \<Rightarrow> pystr list \<Rightarrow> pystr list \<times> (mcp_error + pyval)" where
  "notes_call name args ns =
     (if name = ''add_note'' then
        (case str_arg args ''message'' of
           Some m \<Rightarrow> (let (ns', v) = add_note m ns in (ns', Inr v))
         | None \<Rightarrow> (ns, Inl (InvalidArguments name)))
      else if name = ''read_notes'' then (ns, Inr (read_notes ns))
      else (ns, Inl (UnknownTool name)))"

text \<open>Splitting the output of \<open>read_notes\<close> at newlines, the inverse of the join.\<close>

fun split_at_char :: "char \<Rightarrow> pystr \<Rightarrow> pystr list" where
  "split_at_char c [] = [[]]"
| "split_at_char c (x # xs) =
     (if x = c then [] # split_at_char c xs
      else (case split_at_char c xs of l # ls \<Rightarrow> (x # l) # ls | [] \<Rightarrow> [[x]]))"

subsection \<open>Joining and splitting the notes\<close>


lemma split_at_char_nonempty: "split_at_char c xs \<noteq> []"
  by (induction xs) (auto split: list.split)

lemma split_at_char_append:
  "c \<notin> set xs \<Longrightarrow> split_at_char c (xs @ c # ys) = xs # split_at_char c ys"
  by (induction xs) auto

lemma split_at_char_no_sep: "c \<notin> set xs \<Longrightarrow> split_at_char c xs = [xs]"
  by (induction xs) auto

lemma split_at_char_py_join:
  "ns \<noteq> [] \<Longrightarrow> \<forall>n \<in> set ns. c \<notin> set n \<Longrightarrow> split_at_char c (py_join [c] ns) = ns"
proof (induction ns rule: induct_list012)
  case 1
  then show ?case by simp
next
  case (2 x)
  then show ?case by (simp add: split_at_char_no_sep)
next
  case (3 x y zs)
  then show ?case by (simp add: split_at_char_append)
qed

lemma read_notes_split:
  assumes "ns \<noteq> []" and "\<forall>n \<in> set ns. CHR ''\<newline>'' \<notin> set n"
  shows "read_notes ns = PyStr s \<Longrightarrow> split_at_char CHR ''\<newline>'' s = ns"
  using assms split_at_char_py_join [of ns "CHR ''\<newline>''"] by (simp add: read_notes_def)

end
