(* ===== verification/Adapter.thy ===== *)
theory Adapter
  imports Calculator Notes
begin

text \<open>
  The tool adapters of \<open>src/agent.py\<close> (lines 12--90). At import time the
  module builds two FastMCP clients, \<open>Client("server_calculator.py")\<close> and
  \<open>Client("server_notes.py")\<close>, and calls \<open>list_tools()\<close> on each without
  awaiting it. Each of the six LangChain tools prints a trace line
  \<open>--- Calling MCP Tool: name(args) ---\<close>, then opens the client
  (\<open>async with\<close>), issues one \<open>call_tool\<close> and closes it again, and returns
  what the client returned.

  The world the adapters act on is a record: the notes server's list, whether
  each server can be reached, whether the notes server process survives from
  one connection to the next (\<open>notes_keep_alive\<close>; when it does not, every
  connection starts a fresh process with an empty list), and the text written
  to standard output. A failed connection and an error result of the server
  are both exceptions of the call (\<open>call_exc\<close>), never values.
\<close>

record world =
  notes_store :: "pystr list"
  calc_up :: bool
  notes_up :: bool
  notes_keep_alive :: bool
  stdout :: pystr

datatype server = CalculatorServer | NotesServer

datatype call_exc = ConnectionFailed server | ToolError mcp_error

definition print_line :: "pystr \<Rightarrow> world \<Rightarrow> world" where
  "print_line s w = w\<lparr>stdout := stdout w @ s @ ''\<newline>''\<rparr>"

definition call_tool :: "server \<Rightarrow> pystr \<Rightarrow> mcp_args \<Rightarrow> world \<Rightarrow> world \<times> (call_exc + pyval)" where
  "call_tool srv name args w =
     (case srv of
        CalculatorServer \<Rightarrow>
          if \<not> calc_up w then (w, Inl (ConnectionFailed srv))
          else (w, case calculator_call name args of Inl e \<Rightarrow> Inl (ToolError e) | Inr v \<Rightarrow> Inr v)
      | NotesServer \<Rightarrow>
          if \<not> notes_up w then (w, Inl (ConnectionFailed srv))
          else (let ns0 = (if notes_keep_alive w then notes_store w else []);
                    (ns', r) = notes_call name args ns0
                in (w\<lparr>notes_store := ns'\<rparr>,
                    case r of Inl e \<Rightarrow> Inl (ToolError e) | Inr v \<Rightarrow> Inr v)))"

definition trace_line :: "pystr \<Rightarrow> pystr" where
  "trace_line call = ''--- Calling MCP Tool: '' @ call @ '' ---''"

definition int_pair_text :: "pystr \<Rightarrow> int \<Rightarrow> int \<Rightarrow> pystr" where
  "int_pair_text name a b = name @ ''('' @ py_str_int a @ '', '' @ py_str_int b @ '')''"

definition add_tool :: "int \<Rightarrow> int \<Rightarrow> world \<Rightarrow> world \<times> (call_exc + pyval)" where
  "add_tool a b w =
     call_tool CalculatorServer ''add'' [(''a'', PyInt a), (''b'', PyInt b)]
       (print_line (trace_line (int_pair_text ''add'' a b)) w)"

definition subtract_tool :: "int \<Rightarrow> int \<Rightarrow> world \<Rightarrow> world \<times> (call_exc + pyval)" where
  "subtract_tool a b w =
     call_tool CalculatorServer ''subtract'' [(''a'', PyInt a), (''b'', PyInt b)]
       (print_line (trace_line (int_pair_text ''subtract'' a b)) w)"

definition multiply_tool :: "int \<Rightarrow> int \<Rightarrow> world \<Rightarrow> world \<times> (call_exc + pyval)" where
  "multiply_tool a b w =
     call_tool CalculatorServer ''multiply'' [(''a'', PyInt a), (''b'', PyInt b)]
       (print_line (trace_line (int_pair_text ''multiply'' a b)) w)"

definition divide_tool :: "int \<Rightarrow> int \<Rightarrow> world \<Rightarrow> world \<times> (call_exc + pyval)" where
  "divide_tool a b w =
     call_tool CalculatorServer ''divide'' [(''a'', PyInt a), (''b'', PyInt b)]
       (print_line (trace_line (int_pair_text ''divide'' a b)) w)"

definition quote_char :: char where
  "quote_char = CHR 0x27"

definition add_note_tool :: "pystr \<Rightarrow> world \<Rightarrow> world \<times> (call_exc + pyval)" where
  "add_note_tool m w =
     call_tool NotesServer ''add_note'' [(''message'', PyStr m)]
       (print_line (trace_line (''add_note('' @ [quote_char] @ m @ [quote_char] @ '')'')) w)"

definition read_notes_tool :: "world \<Rightarrow> world \<times> (call_exc + pyval)" where
  "read_notes_tool w =
     call_tool NotesServer ''read_notes'' [] (print_line (trace_line ''read_notes()'') w)"

text \<open>
  The six tools as one tagged union (the closed set of operations the
  specification's design notes ask for), the registry \<open>tools\<close> in the
  source's order, and the dispatch of an operation to its adapter.
\<close>

datatype tool_op =
    Add int int | Subtract int int | Multiply int int | Divide int int
  | AddNote pystr | ReadNotes

definition tools :: "pystr list" where
  "tools = [''add'', ''subtract'', ''multiply'', ''divide'', ''add_note'', ''read_notes'']"

fun run_op :: "tool_op \<Rightarrow> world \<Rightarrow> world \<times> (call_exc + pyval)" where
  "run_op (Add a b) w = add_tool a b w"
| "run_op (Subtract a b) w = subtract_tool a b w"
| "run_op (Multiply a b) w = multiply_tool a b w"
| "run_op (Divide a b) w = divide_tool a b w"
| "run_op (AddNote m) w = add_note_tool m w"
| "run_op ReadNotes w = read_notes_tool w"

fun op_server :: "tool_op \<Rightarrow> server" where
  "op_server (AddNote m) = NotesServer"
| "op_server ReadNotes = NotesServer"
| "op_server op = CalculatorServer"

definition server_up :: "server \<Rightarrow> world \<Rightarrow> bool" where
  "server_up srv w = (case srv of CalculatorServer \<Rightarrow> calc_up w | NotesServer \<Rightarrow> notes_up w)"

text \<open>The call each trace line describes, as the adapters' f-strings render it.\<close>

fun op_text :: "tool_op \<Rightarrow> pystr" where
  "op_text (Add a b) = int_pair_text ''add'' a b"
| "op_text (Subtract a b) = int_pair_text ''subtract'' a b"
| "op_text (Multiply a b) = int_pair_text ''multiply'' a b"
| "op_text (Divide a b) = int_pair_text ''divide'' a b"
| "op_text (AddNote m) = ''add_note('' @ [quote_char] @ m @ [quote_char] @ '')''"
| "op_text ReadNotes = ''read_notes()''"

text \<open>
  Start-up (lines 12--22): the two \<open>list_tools()\<close> calls build coroutines that
  are never awaited, so no connection is attempted there. Once the two clients
  are constructed, the block prints a "Connected" line for each server and the
  module goes on, whatever the state of the servers: \<open>startup_connected\<close>
  is the list of servers reported as connected.
\<close>

definition startup_connected :: "world \<Rightarrow> server list" where
  "startup_connected w = [CalculatorServer, NotesServer]"

subsection \<open>Properties of the adapters\<close>

lemmas adapter_defs = add_tool_def subtract_tool_def multiply_tool_def divide_tool_def
  add_note_tool_def read_notes_tool_def

declare adapter_defs [model_simps]

lemma call_tool_stdout [simp]: "stdout (fst (call_tool srv name args w)) = stdout w"
  by (auto simp: call_tool_def Let_def split: server.splits prod.splits)

lemma call_tool_down:
  "\<not> server_up srv w \<Longrightarrow> call_tool srv name args w = (w, Inl (ConnectionFailed srv))"
  by (simp add: call_tool_def server_up_def split: server.splits)

lemma print_line_up [simp]: "server_up srv (print_line s w) = server_up srv w"
  by (simp add: print_line_def server_up_def split: server.splits)

text \<open>C7: when the server that owns an operation cannot be reached, the adapter call ends in
  the exception ConnectionFailed for that server: a transport failure is never turned into a
  result value.\<close>

theorem adapter_transport_failure:
  "\<not> server_up (op_server op) w \<Longrightarrow> snd (run_op op w) = Inl (ConnectionFailed (op_server op))"
  by (cases op) (simp_all add: model_simps call_tool_down)

lemma run_op_stdout:
  "stdout (fst (run_op op w)) = stdout w @ trace_line (op_text op) @ ''\<newline>''"
  by (cases op) (simp_all add: model_simps print_line_def)

text \<open>C18: every adapter call, successful or not, writes exactly one trace line
  "--- Calling MCP Tool: name(args) ---" to standard output, before the call.\<close>

theorem adapter_prints_one_trace_line:
  "stdout (fst (run_op op w)) = stdout w @ trace_line (op_text op) @ ''\<newline>''"
  by (rule run_op_stdout)

lemma comma_not_in_py_str_int: "CHR '','' \<notin> set (py_str_int i)"
proof -
  have nd: "\<not> is_digit_char CHR '',''" "\<not> is_digit_char CHR ''-''"
    by (simp_all add: is_digit_char_def)
  have "\<forall>c \<in> set (nat_digits n). is_digit_char c" for n
    using nat_digits_digits [of n] by (simp add: list_all_iff)
  with nd show ?thesis by (auto simp: py_str_int_def)
qed

lemma append_sep_cancel:
  "c \<notin> set xs \<Longrightarrow> c \<notin> set ys \<Longrightarrow> xs @ c # zs = ys @ c # ws \<Longrightarrow> xs = ys \<and> zs = ws"
proof (induction xs arbitrary: ys)
  case Nil
  then show ?case by (cases ys) auto
next
  case (Cons x xs)
  then show ?case by (cases ys) auto
qed

lemma py_str_int_inject: "py_str_int a = py_str_int b \<Longrightarrow> a = b"
  by (metis option.inject parse_int_py_str_int)

lemma int_pair_args_inject [simp]:
  "py_str_int a @ CHR '','' # CHR '' '' # py_str_int b =
   py_str_int a' @ CHR '','' # CHR '' '' # py_str_int b' \<longleftrightarrow> a = a' \<and> b = b'"
proof
  assume "py_str_int a @ CHR '','' # CHR '' '' # py_str_int b =
          py_str_int a' @ CHR '','' # CHR '' '' # py_str_int b'"
  then have "py_str_int a = py_str_int a' \<and> py_str_int b = py_str_int b'"
    using append_sep_cancel [OF comma_not_in_py_str_int comma_not_in_py_str_int] by blast
  then show "a = a' \<and> b = b'" by (auto dest: py_str_int_inject)
qed simp

lemma op_text_inject: "op_text op1 = op_text op2 \<Longrightarrow> op1 = op2"
  by (cases op1; cases op2) (simp_all add: int_pair_text_def)

text \<open>C19: the trace output identifies the call: two adapter calls from the same state that
  print the same text are the same operation with the same arguments (integers are printed
  by str(int), which is injective).\<close>

theorem trace_identifies_call:
  "stdout (fst (run_op op1 w)) = stdout (fst (run_op op2 w)) \<Longrightarrow> op1 = op2"
  by (simp add: run_op_stdout trace_line_def op_text_inject)

lemma add_note_tool_kept:
  "notes_up w \<Longrightarrow> notes_keep_alive w \<Longrightarrow>
   add_note_tool m w = (print_line (trace_line (op_text (AddNote m))) w\<lparr>notes_store := notes_store w @ [m]\<rparr>,
                        Inr (PyStr note_added_msg))"
  by (simp add: add_note_tool_def call_tool_def notes_call_def add_note_def print_line_def)

lemma read_notes_tool_result:
  "notes_up w \<Longrightarrow>
   snd (read_notes_tool w) = Inr (read_notes (if notes_keep_alive w then notes_store w else []))"
  by (simp add: read_notes_tool_def call_tool_def notes_call_def print_line_def)

lemma add_notes_kept:
  "notes_up w \<Longrightarrow> notes_keep_alive w \<Longrightarrow>
   notes_up (fold (\<lambda>m w. fst (add_note_tool m w)) ms w) \<and>
   notes_keep_alive (fold (\<lambda>m w. fst (add_note_tool m w)) ms w) \<and>
   notes_store (fold (\<lambda>m w. fst (add_note_tool m w)) ms w) = notes_store w @ ms"
  by (induction ms arbitrary: w) (simp_all add: add_note_tool_kept print_line_def)

text \<open>C10: with a notes server that stays alive between connections, reading the notes after a
  sequence of add_note calls returns the previous notes followed by the added ones, in
  insertion order.\<close>

theorem notes_read_after_adds:
  assumes "notes_up w" and "notes_keep_alive w"
  shows "snd (read_notes_tool (fold (\<lambda>m w. fst (add_note_tool m w)) ms w)) =
           Inr (read_notes (notes_store w @ ms))"
  using add_notes_kept [OF assms, of ms] by (simp add: read_notes_tool_result)

subsection \<open>Witnesses\<close>

theorem adapter_transport_failure_witness:
  "\<not> server_up (op_server (Multiply 7 6))
      \<lparr>notes_store = [], calc_up = False, notes_up = True, notes_keep_alive = True, stdout = []\<rparr> \<and>
   snd (run_op (Multiply 7 6)
      \<lparr>notes_store = [], calc_up = False, notes_up = True, notes_keep_alive = True, stdout = []\<rparr>)
   = Inl (ConnectionFailed CalculatorServer)"
  using adapter_transport_failure [of "Multiply 7 6"
      "\<lparr>notes_store = [], calc_up = False, notes_up = True, notes_keep_alive = True, stdout = []\<rparr>"]
  by (simp add: server_up_def)

theorem trace_identifies_call_witness:
  "stdout (fst (run_op (Divide 1 (-2)) \<lparr>notes_store = [], calc_up = True, notes_up = True,
       notes_keep_alive = True, stdout = []\<rparr>)) =
   stdout (fst (run_op (Divide 1 (-2)) \<lparr>notes_store = [], calc_up = True, notes_up = True,
       notes_keep_alive = True, stdout = []\<rparr>)) \<and> Divide 1 (-2) = Divide 1 (-2)"
  using trace_identifies_call [of "Divide 1 (-2)" "\<lparr>notes_store = [], calc_up = True, notes_up = True,
       notes_keep_alive = True, stdout = []\<rparr>" "Divide 1 (-2)"] by simp

theorem notes_read_after_adds_witness:
  "snd (read_notes_tool (fold (\<lambda>m w. fst (add_note_tool m w)) [''x'', ''y'']
      \<lparr>notes_store = [], calc_up = True, notes_up = True, notes_keep_alive = True, stdout = []\<rparr>))
   = Inr (PyStr ''x\<newline>y'')"
  using notes_read_after_adds [of
      "\<lparr>notes_store = [], calc_up = True, notes_up = True, notes_keep_alive = True, stdout = []\<rparr>"
      "[''x'', ''y'']"]
  by (simp add: read_notes_def)

end
