(* ===== verification/Engine.thy ===== *)
theory Engine
  imports Adapter
begin

text \<open>
  The conversation engine of \<open>src/agent.py\<close>: \<open>agent = create_agent(model,
  tools, system_prompt=system_prompt)\<close> (lines 90--112) and \<open>run_agent\<close>
  (lines 115--131). The language model is a parameter, a function from the
  conversation it is shown to its reply: a message with tool calls, a final
  message without, or a failure of the model backend. The agent graph runs
  the model node and the tools node alternately; each node is one superstep,
  and \<open>config={"recursion_limit": 50}\<close> bounds the supersteps, so the limit is
  the fuel of \<open>agent_loop\<close>: a model step or a tools step spends one unit, and a
  step that has none left raises \<open>GraphRecursionError\<close>.

  The tools node looks each requested call up by name in \<open>tools\<close> and
  validates its arguments against the tool's signature: an unknown name or
  arguments that fail validation give an error \<open>ToolMessage\<close> the model sees;
  an exception raised by the tool itself (a connection failure, an error result
  of the server) propagates out of the graph. Calls of one reply are run in
  order and their messages kept in that order. \<open>run_agent\<close> catches every
  exception and answers \<open>"Error: <e>. Try phrasing it differently."\<close>.

  Arguments produced by the model are JSON values; a parameter declared \<open>int\<close>
  accepts an integer or a number with no fractional part, one declared
  \<open>str\<close> a string (the subset of pydantic's lax coercion that is modelled:
  numeric strings and booleans for \<open>int\<close> are refused here).
\<close>

datatype jval = JInt int | JNum rat | JStr pystr | JBool bool | JNull

datatype tool_call = ToolCall (tc_name: pystr) (tc_args: "(pystr \<times> jval) list")

datatype tool_outcome = ToolResult pyval | InvalidToolName pystr | InvalidToolArgs pystr

datatype message =
    SystemMessage pystr
  | HumanMessage pystr
  | AIMessage pystr "tool_call list"
  | ToolMessage pystr tool_outcome

datatype llm_reply = Reply pystr "tool_call list" | ModelFailure pystr

type_synonym chat_model = "message list \<Rightarrow> llm_reply"

datatype agent_exc = GraphRecursionError nat | ModelError pystr | ToolFailure call_exc

definition system_prompt :: pystr where
  "system_prompt = py_join ''\<newline>''
     [''You are DevHelper, an expert software development assistant.'',
      ''    Your job is to read, review, explain, and improve code.'',
      ''    You can help with debugging, refactoring, architecture decisions, and explaining difficult concepts.'',
      '''',
      ''    You also have access to a calculator with the following tools:'',
      ''    - add'', ''    - subtract'', ''    - multiply'', ''    - divide'',
      ''    If the user asks a math question, use these tools.'',
      '''',
      ''    Also, you can manage sticky notes with these tools:'',
      ''    - add_note'', ''    - read_notes'',
      ''    If the user wants to save or read notes, use these tools.'',
      '''',
      ''    For all other requests, use your software development knowledge.'',
      ''    '']"

definition recursion_limit :: nat where
  "recursion_limit = 50"

subsection \<open>The tools node\<close>

definition coerce_int :: "jval \<Rightarrow> int option" where
  "coerce_int v = (case v of
      JInt i \<Rightarrow> Some i
    | JNum x \<Rightarrow> if x = of_int \<lfloor>x\<rfloor> then Some \<lfloor>x\<rfloor> else None
    | _ \<Rightarrow> None)"

definition coerce_str :: "jval \<Rightarrow> pystr option" where
  "coerce_str v = (case v of JStr s \<Rightarrow> Some s | _ \<Rightarrow> None)"

definition int_pair_arg :: "(pystr \<times> jval) list \<Rightarrow> (int \<times> int) option" where
  "int_pair_arg args =
     (case (Option.bind (map_of args ''a'') coerce_int, Option.bind (map_of args ''b'') coerce_int) of
        (Some a, Some b) \<Rightarrow> Some (a, b)
      | _ \<Rightarrow> None)"

definition binary_op :: "(int \<Rightarrow> int \<Rightarrow> tool_op) \<Rightarrow> pystr \<Rightarrow> (pystr \<times> jval) list \<Rightarrow> tool_outcome + tool_op" where
  "binary_op f n args =
     (case int_pair_arg args of Some (a, b) \<Rightarrow> Inr (f a b) | None \<Rightarrow> Inl (InvalidToolArgs n))"

definition parse_tool_call :: "tool_call \<Rightarrow> tool_outcome + tool_op" where
  "parse_tool_call c =
     (let n = tc_name c; args = tc_args c in
      if n = ''add'' then binary_op Add n args
      else if n = ''subtract'' then binary_op Subtract n args
      else if n = ''multiply'' then binary_op Multiply n args
      else if n = ''divide'' then binary_op Divide n args
      else if n = ''add_note'' then
        (case Option.bind (map_of args ''message'') coerce_str of
           Some m \<Rightarrow> Inr (AddNote m) | None \<Rightarrow> Inl (InvalidToolArgs n))
      else if n = ''read_notes'' then Inr ReadNotes
      else Inl (InvalidToolName n))"

definition run_tool_call :: "tool_call \<Rightarrow> world \<Rightarrow> world \<times> (call_exc + message)" where
  "run_tool_call c w =
     (case parse_tool_call c of
        Inl out \<Rightarrow> (w, Inr (ToolMessage (tc_name c) out))
      | Inr op \<Rightarrow>
          (case run_op op w of
             (w', Inl e) \<Rightarrow> (w', Inl e)
           | (w', Inr v) \<Rightarrow> (w', Inr (ToolMessage (tc_name c) (ToolResult v)))))"

fun run_tool_calls :: "tool_call list \<Rightarrow> world \<Rightarrow> world \<times> (call_exc + message list)" where
  "run_tool_calls [] w = (w, Inr [])"
| "run_tool_calls (c # cs) w =
     (case run_tool_call c w of
        (w', Inl e) \<Rightarrow> (w', Inl e)
      | (w', Inr m) \<Rightarrow>
          (case run_tool_calls cs w' of
             (w'', Inl e) \<Rightarrow> (w'', Inl e)
           | (w'', Inr ms) \<Rightarrow> (w'', Inr (m # ms))))"

subsection \<open>The agent graph and \<open>run_agent\<close>\<close>

fun agent_loop :: "chat_model \<Rightarrow> nat \<Rightarrow> nat \<Rightarrow> message list \<Rightarrow> world \<Rightarrow> world \<times> (agent_exc + message list)" where
  "agent_loop llm lmt 0 msgs w = (w, Inl (GraphRecursionError lmt))"
| "agent_loop llm lmt (Suc n) msgs w =
     (case llm (SystemMessage system_prompt # msgs) of
        ModelFailure e \<Rightarrow> (w, Inl (ModelError e))
      | Reply c calls \<Rightarrow>
          if calls = [] then (w, Inr (msgs @ [AIMessage c []]))
          else (case n of
                  0 \<Rightarrow> (w, Inl (GraphRecursionError lmt))
                | Suc n' \<Rightarrow>
                    (case run_tool_calls calls w of
                       (w', Inl e) \<Rightarrow> (w', Inl (ToolFailure e))
                     | (w', Inr tms) \<Rightarrow> agent_loop llm lmt n' (msgs @ AIMessage c calls # tms) w')))"

definition call_exc_str :: "call_exc \<Rightarrow> pystr" where
  "call_exc_str e = (case e of
      ConnectionFailed CalculatorServer \<Rightarrow> ''Client failed to connect: server_calculator.py''
    | ConnectionFailed NotesServer \<Rightarrow> ''Client failed to connect: server_notes.py''
    | ToolError (UnknownTool n) \<Rightarrow> ''Unknown tool: '' @ n
    | ToolError (InvalidArguments n) \<Rightarrow> ''Error calling tool '' @ [quote_char] @ n @ [quote_char] @ '': invalid arguments''
    | ToolError (ToolRaised n x) \<Rightarrow> ''Error calling tool '' @ [quote_char] @ n @ [quote_char] @ '': '' @ py_exc_str x)"

definition agent_exc_str :: "agent_exc \<Rightarrow> pystr" where
  "agent_exc_str e = (case e of
      GraphRecursionError n \<Rightarrow>
        ''Recursion limit of '' @ py_str_int (int n) @
        '' reached without hitting a stop condition. You can increase the limit by setting the `recursion_limit` config key.'' @
        ''\<newline>For troubleshooting, visit: https://python.langchain.com/docs/troubleshooting/errors/GRAPH_RECURSION_LIMIT''
    | ModelError s \<Rightarrow> s
    | ToolFailure c \<Rightarrow> call_exc_str c)"

definition message_content :: "message \<Rightarrow> pystr" where
  "message_content m = (case m of
      SystemMessage c \<Rightarrow> c | HumanMessage c \<Rightarrow> c | AIMessage c _ \<Rightarrow> c | ToolMessage n _ \<Rightarrow> [])"

definition error_reply :: "pystr \<Rightarrow> pystr" where
  "error_reply d = ''Error: '' @ d @ ''. Try phrasing it differently.''"

definition run_agent :: "chat_model \<Rightarrow> pystr \<Rightarrow> world \<Rightarrow> world \<times> message" where
  "run_agent llm u w =
     (case agent_loop llm recursion_limit recursion_limit [HumanMessage u] w of
        (w', Inr msgs) \<Rightarrow> (w', AIMessage (message_content (last msgs)) [])
      | (w', Inl e) \<Rightarrow>
          (print_line (''\<newline>[Agent Error]: '' @ agent_exc_str e) w',
           AIMessage (error_reply (agent_exc_str e)) []))"

subsection \<open>Shape of a finished turn\<close>

text \<open>
  \<open>wf_turn\<close> describes the messages a finished turn appends after the user's
  message: rounds of a model message with tool calls followed by one tool
  message per call, in order, then a final model message without calls.
  \<open>tool_rounds\<close> counts the rounds.
\<close>

definition answers_call :: "tool_call \<Rightarrow> message \<Rightarrow> bool" where
  "answers_call c m = (\<exists>out. m = ToolMessage (tc_name c) out)"

fun wf_turn :: "message list \<Rightarrow> bool" where
  "wf_turn [AIMessage c calls] = (calls = [])"
| "wf_turn (AIMessage c calls # rest) =
     (calls \<noteq> [] \<and> list_all2 answers_call calls (take (length calls) rest)
      \<and> wf_turn (drop (length calls) rest))"
| "wf_turn _ = False"

fun tool_rounds :: "message list \<Rightarrow> nat" where
  "tool_rounds [] = 0"
| "tool_rounds (AIMessage c calls # rest) = (if calls = [] then 0 else 1) + tool_rounds rest"
| "tool_rounds (m # rest) = tool_rounds rest"

lemma wf_turn_AI:
  "wf_turn (AIMessage c calls # rest) =
     (if rest = [] then calls = []
      else calls \<noteq> [] \<and> list_all2 answers_call calls (take (length calls) rest)
           \<and> wf_turn (drop (length calls) rest))"
  by (cases rest) simp_all

lemma run_tool_call_answers:
  "run_tool_call c w = (w', Inr m) \<Longrightarrow> answers_call c m"
  by (auto simp: run_tool_call_def answers_call_def split: sum.splits prod.splits)

lemma run_tool_calls_answers:
  "run_tool_calls cs w = (w', Inr ms) \<Longrightarrow> list_all2 answers_call cs ms"
proof (induction cs arbitrary: w ms)
  case Nil
  then show ?case by simp
next
  case (Cons c cs)
  then show ?case
    by (auto simp: run_tool_call_answers split: prod.splits sum.splits)
qed

lemma answers_no_rounds: "list_all2 answers_call cs ms \<Longrightarrow> tool_rounds (ms @ rest) = tool_rounds rest"
proof (induction cs ms rule: list_all2_induct)
  case Nil
  then show ?case by simp
next
  case (Cons c m cs ms)
  then show ?case by (auto simp: answers_call_def)
qed

lemma agent_loop_transcript:
  "agent_loop llm l n msgs w = (w', Inr ms) \<Longrightarrow>
   \<exists>body. ms = msgs @ body \<and> wf_turn body \<and> 2 * tool_rounds body + 1 \<le> n"
proof (induction llm l n msgs w arbitrary: w' ms rule: agent_loop.induct)
  case (1 llm l msgs w)
  then show ?case by simp
next
  case (2 llm l n msgs w)
  show ?case
  proof (cases "llm (SystemMessage system_prompt # msgs)")
    case (ModelFailure e)
    with "2.prems" show ?thesis by simp
  next
    case (Reply c calls)
    show ?thesis
    proof (cases "calls = []")
      case True
      with Reply "2.prems" show ?thesis by auto
    next
      case False
      then obtain n' w1 tms where n: "n = Suc n'" and rt: "run_tool_calls calls w = (w1, Inr tms)"
        and rec: "agent_loop llm l n' (msgs @ AIMessage c calls # tms) w1 = (w', Inr ms)"
        using Reply "2.prems"
        by (auto split: nat.splits prod.splits sum.splits)
      from "2.IH" [OF Reply False n rt [symmetric] refl rec]
      obtain body' where ms: "ms = (msgs @ AIMessage c calls # tms) @ body'"
        and wf: "wf_turn body'" and r: "2 * tool_rounds body' + 1 \<le> n'" by blast
      have ans: "list_all2 answers_call calls tms" by (rule run_tool_calls_answers [OF rt])
      then have len: "length tms = length calls" by (simp add: list_all2_lengthD)
      have "tms @ body' \<noteq> []" using wf by auto
      then have "wf_turn (AIMessage c calls # tms @ body')"
        using False ans wf len by (simp only: wf_turn_AI) simp
      moreover have "tool_rounds (AIMessage c calls # tms @ body') = Suc (tool_rounds body')"
        using False answers_no_rounds [OF ans] by simp
      ultimately show ?thesis using ms r n by auto
    qed
  qed
qed

subsection \<open>Properties of \<open>run_agent\<close>\<close>

lemma wf_turn_last: "wf_turn body \<Longrightarrow> \<exists>c. last body = AIMessage c []"
proof (induction body rule: wf_turn.induct)
  case (1 c calls)
  then show ?case by simp
next
  case (2 c calls v vs)
  then have wf: "wf_turn (drop (length calls) (v # vs))" and IH: "\<exists>c. last (drop (length calls) (v # vs)) = AIMessage c []"
    by simp_all
  from wf have "drop (length calls) (v # vs) \<noteq> []" by auto
  then have "length calls < length (v # vs)" by simp
  then have "last (drop (length calls) (v # vs)) = last (v # vs)" by (rule last_drop)
  with IH show ?case by simp
qed simp_all

lemma wf_turn_nonempty: "wf_turn body \<Longrightarrow> body \<noteq> []"
  by auto

text \<open>C5: when the agent graph finishes, its transcript is the user's message followed by
  rounds in which each tool-requesting model message is answered by exactly one tool message
  per call, in call order, and a final model message without tool calls; there are at most 24
  tool rounds (25 model calls) under the recursion limit of 50, and run_agent replies with the
  final message's text.\<close>

theorem run_agent_transcript:
  assumes "agent_loop llm recursion_limit recursion_limit [HumanMessage u] w = (w', Inr ms)"
  shows "\<exists>body c. ms = HumanMessage u # body \<and> wf_turn body \<and> tool_rounds body \<le> 24 \<and>
                 last body = AIMessage c [] \<and> run_agent llm u w = (w', AIMessage c [])"
proof -
  from agent_loop_transcript [OF assms] obtain body where
    ms: "ms = [HumanMessage u] @ body" and wf: "wf_turn body"
    and r: "2 * tool_rounds body + 1 \<le> recursion_limit" by blast
  from wf_turn_last [OF wf] obtain c where c: "last body = AIMessage c []" by blast
  have "body \<noteq> []" using wf by auto
  then have "run_agent llm u w = (w', AIMessage c [])"
    using assms ms c by (simp add: run_agent_def message_content_def)
  with ms wf r c show ?thesis by (auto simp: recursion_limit_def)
qed

theorem run_agent_transcript_witness:
  "agent_loop (\<lambda>ms. Reply ''hello'' []) recursion_limit recursion_limit [HumanMessage ''hi'']
      \<lparr>notes_store = [], calc_up = True, notes_up = True, notes_keep_alive = True, stdout = []\<rparr>
   = (\<lparr>notes_store = [], calc_up = True, notes_up = True, notes_keep_alive = True, stdout = []\<rparr>,
      Inr [HumanMessage ''hi'', AIMessage ''hello'' []]) \<and>
   run_agent (\<lambda>ms. Reply ''hello'' []) ''hi''
      \<lparr>notes_store = [], calc_up = True, notes_up = True, notes_keep_alive = True, stdout = []\<rparr>
   = (\<lparr>notes_store = [], calc_up = True, notes_up = True, notes_keep_alive = True, stdout = []\<rparr>,
      AIMessage ''hello'' [])"
proof -
  have h: "agent_loop (\<lambda>ms. Reply ''hello'' []) recursion_limit recursion_limit [HumanMessage ''hi'']
      \<lparr>notes_store = [], calc_up = True, notes_up = True, notes_keep_alive = True, stdout = []\<rparr>
   = (\<lparr>notes_store = [], calc_up = True, notes_up = True, notes_keep_alive = True, stdout = []\<rparr>,
      Inr [HumanMessage ''hi'', AIMessage ''hello'' []])"
    by code_simp
  from run_agent_transcript [OF h] h show ?thesis by auto
qed

lemma agent_loop_stuck:
  "(\<forall>ms. \<exists>c cs. llm ms = Reply c cs \<and> cs \<noteq> []) \<Longrightarrow>
   \<exists>e. snd (agent_loop llm l n msgs w) = Inl e \<and> (e = GraphRecursionError l \<or> (\<exists>x. e = ToolFailure x))"
proof (induction llm l n msgs w rule: agent_loop.induct)
  case (1 llm l msgs w)
  then show ?case by simp
next
  case (2 llm l n msgs w)
  from "2.prems" obtain c cs where r: "llm (SystemMessage system_prompt # msgs) = Reply c cs"
    and cs: "cs \<noteq> []" by blast
  show ?case
  proof (cases n)
    case 0
    with r cs show ?thesis by simp
  next
    case (Suc n')
    show ?thesis
    proof (cases "run_tool_calls cs w")
      case (Pair w1 res)
      show ?thesis
      proof (cases res)
        case (Inl x)
        with r cs Suc Pair show ?thesis by simp
      next
        case (Inr tms)
        from "2.IH" [OF r cs Suc Pair [symmetric] Inr "2.prems"] r cs Suc Pair Inr
        show ?thesis by simp
      qed
    qed
  qed
qed

text \<open>C6: a model that requests tools on every turn cannot make run_agent loop: the reply is
  the error message of the recursion limit of 50 or of a failed tool call, never a model
  answer.\<close>

theorem run_agent_stuck_model_stops:
  assumes "\<forall>ms. \<exists>c cs. llm ms = Reply c cs \<and> cs \<noteq> []"
  shows "\<exists>e. snd (run_agent llm u w) = AIMessage (error_reply (agent_exc_str e)) [] \<and>
             (e = GraphRecursionError 50 \<or> (\<exists>x. e = ToolFailure x))"
proof -
  from agent_loop_stuck [OF assms, of recursion_limit recursion_limit "[HumanMessage u]" w]
  obtain e where e: "snd (agent_loop llm recursion_limit recursion_limit [HumanMessage u] w) = Inl e"
    and k: "e = GraphRecursionError recursion_limit \<or> (\<exists>x. e = ToolFailure x)" by blast
  then show ?thesis
    by (cases "agent_loop llm recursion_limit recursion_limit [HumanMessage u] w")
       (auto simp: run_agent_def recursion_limit_def)
qed

theorem run_agent_stuck_model_stops_witness:
  "\<exists>e. snd (run_agent (\<lambda>ms. Reply [] [ToolCall ''calculate'' []]) ''what is 2+2?''
          \<lparr>notes_store = [], calc_up = True, notes_up = True, notes_keep_alive = True, stdout = []\<rparr>)
        = AIMessage (error_reply (agent_exc_str e)) [] \<and>
      (e = GraphRecursionError 50 \<or> (\<exists>x. e = ToolFailure x))"
  by (rule run_agent_stuck_model_stops) simp


lemma agent_loop_first_failure:
  "0 < n \<Longrightarrow> llm (SystemMessage system_prompt # msgs) = ModelFailure e \<Longrightarrow>
   agent_loop llm l n msgs w = (w, Inl (ModelError e))"
  by (cases n) simp_all

lemma agent_loop_first_answer:
  "0 < n \<Longrightarrow> llm (SystemMessage system_prompt # msgs) = Reply c [] \<Longrightarrow>
   agent_loop llm l n msgs w = (w, Inr (msgs @ [AIMessage c []]))"
  by (cases n) simp_all

text \<open>C9: when the model backend fails on the first call, run_agent does not raise: it prints
  "[Agent Error]: e" and replies "Error: e. Try phrasing it differently.", leaving the world
  otherwise unchanged.\<close>

theorem run_agent_model_failure:
  assumes "llm [SystemMessage system_prompt, HumanMessage u] = ModelFailure e"
  shows "run_agent llm u w =
           (print_line (''\<newline>[Agent Error]: '' @ e) w,
            AIMessage (''Error: '' @ e @ ''. Try phrasing it differently.'') [])"
  using assms by (simp add: run_agent_def recursion_limit_def agent_loop_first_failure agent_exc_str_def error_reply_def)

theorem run_agent_model_failure_witness:
  "run_agent (\<lambda>ms. ModelFailure ''connection refused'') ''hi''
      \<lparr>notes_store = [], calc_up = True, notes_up = True, notes_keep_alive = True, stdout = []\<rparr> =
   (print_line (''\<newline>[Agent Error]: '' @ ''connection refused'')
      \<lparr>notes_store = [], calc_up = True, notes_up = True, notes_keep_alive = True, stdout = []\<rparr>,
    AIMessage (''Error: '' @ ''connection refused'' @ ''. Try phrasing it differently.'') [])"
  by (rule run_agent_model_failure) simp

text \<open>C20: when the model answers without requesting a tool, run_agent returns that answer and
  neither calls a tool nor writes anything.\<close>

theorem run_agent_direct_answer:
  assumes "llm [SystemMessage system_prompt, HumanMessage u] = Reply c []"
  shows "run_agent llm u w = (w, AIMessage c [])"
  using assms by (simp add: run_agent_def recursion_limit_def agent_loop_first_answer message_content_def)

theorem run_agent_direct_answer_witness:
  "run_agent (\<lambda>ms. Reply ''A decorator wraps a function.'' []) ''what is a decorator?''
      \<lparr>notes_store = [], calc_up = False, notes_up = False, notes_keep_alive = True, stdout = []\<rparr> =
   (\<lparr>notes_store = [], calc_up = False, notes_up = False, notes_keep_alive = True, stdout = []\<rparr>,
    AIMessage ''A decorator wraps a function.'' [])"
  by (rule run_agent_direct_answer) simp

text \<open>C14: the tools node answers a model message with exactly one tool message per requested
  call, in the order of the calls, each carrying the name of its call.\<close>

theorem tool_results_match_requests:
  "run_tool_calls cs w = (w', Inr ms) \<Longrightarrow> list_all2 answers_call cs ms"
  by (rule run_tool_calls_answers)

theorem tool_results_match_requests_witness:
  "run_tool_calls [ToolCall ''pow'' [], ToolCall ''add'' [(''a'', JStr ''x'')]]
      \<lparr>notes_store = [], calc_up = True, notes_up = True, notes_keep_alive = True, stdout = []\<rparr> =
   (\<lparr>notes_store = [], calc_up = True, notes_up = True, notes_keep_alive = True, stdout = []\<rparr>,
    Inr [ToolMessage ''pow'' (InvalidToolName ''pow''), ToolMessage ''add'' (InvalidToolArgs ''add'')]) \<and>
   list_all2 answers_call [ToolCall ''pow'' [], ToolCall ''add'' [(''a'', JStr ''x'')]]
     [ToolMessage ''pow'' (InvalidToolName ''pow''), ToolMessage ''add'' (InvalidToolArgs ''add'')]"
proof -
  have h: "run_tool_calls [ToolCall ''pow'' [], ToolCall ''add'' [(''a'', JStr ''x'')]]
      \<lparr>notes_store = [], calc_up = True, notes_up = True, notes_keep_alive = True, stdout = []\<rparr> =
   (\<lparr>notes_store = [], calc_up = True, notes_up = True, notes_keep_alive = True, stdout = []\<rparr>,
    Inr [ToolMessage ''pow'' (InvalidToolName ''pow''), ToolMessage ''add'' (InvalidToolArgs ''add'')])"
    by code_simp
  from tool_results_match_requests [OF h] h show ?thesis by simp
qed

lemma agent_loop_first_tool_failure:
  "1 < n \<Longrightarrow> llm (SystemMessage system_prompt # msgs) = Reply c cs \<Longrightarrow> cs \<noteq> [] \<Longrightarrow>
   run_tool_calls cs w = (w1, Inl x) \<Longrightarrow> agent_loop llm l n msgs w = (w1, Inl (ToolFailure x))"
  by (cases n rule: nat.exhaust; cases "n - 1") auto

text \<open>C8: when a tool the model requests fails (the server is unreachable, or the server
  reports an error such as OverflowError), the failure is not handed to the model: run_agent
  replies "Error: <the tool error>. Try phrasing it differently.", keeping the effects of the
  calls made before it.\<close>

theorem run_agent_tool_failure:
  assumes "llm [SystemMessage system_prompt, HumanMessage u] = Reply c cs" and "cs \<noteq> []"
    and "run_tool_calls cs w = (w1, Inl x)"
  shows "run_agent llm u w =
           (print_line (''\<newline>[Agent Error]: '' @ call_exc_str x) w1,
            AIMessage (error_reply (call_exc_str x)) [])"
proof -
  have "agent_loop llm recursion_limit recursion_limit [HumanMessage u] w = (w1, Inl (ToolFailure x))"
    by (rule agent_loop_first_tool_failure) (use assms in \<open>simp_all add: recursion_limit_def\<close>)
  then show ?thesis by (simp add: run_agent_def agent_exc_str_def)
qed

theorem run_agent_tool_failure_witness:
  "run_agent (\<lambda>ms. Reply [] [ToolCall ''add'' [(''a'', JInt 1), (''b'', JInt 2)]]) ''what is 1+2?''
      \<lparr>notes_store = [], calc_up = False, notes_up = True, notes_keep_alive = True, stdout = []\<rparr> =
   (print_line (''\<newline>[Agent Error]: '' @ call_exc_str (ConnectionFailed CalculatorServer))
      \<lparr>notes_store = [], calc_up = False, notes_up = True, notes_keep_alive = True,
       stdout = ''--- Calling MCP Tool: add(1, 2) ---\<newline>''\<rparr>,
    AIMessage (error_reply (call_exc_str (ConnectionFailed CalculatorServer))) [])"
proof (rule run_agent_tool_failure)
  show "run_tool_calls [ToolCall ''add'' [(''a'', JInt 1), (''b'', JInt 2)]]
      \<lparr>notes_store = [], calc_up = False, notes_up = True, notes_keep_alive = True, stdout = []\<rparr> =
    (\<lparr>notes_store = [], calc_up = False, notes_up = True, notes_keep_alive = True,
       stdout = ''--- Calling MCP Tool: add(1, 2) ---\<newline>''\<rparr>, Inl (ConnectionFailed CalculatorServer))"
    by code_simp
qed simp_all

subsection \<open>One tool round\<close>

lemma agent_loop_one_round:
  assumes "llm (SystemMessage system_prompt # msgs) = Reply c cs" and "cs \<noteq> []"
    and "run_tool_calls cs w = (w1, Inr tms)"
    and "llm (SystemMessage system_prompt # msgs @ AIMessage c cs # tms) = Reply t []"
  shows "agent_loop llm l (Suc (Suc (Suc n))) msgs w = (w1, Inr (msgs @ AIMessage c cs # tms @ [AIMessage t []]))"
  using assms by simp

lemma run_agent_one_round:
  assumes "llm [SystemMessage system_prompt, HumanMessage u] = Reply c cs" and "cs \<noteq> []"
    and "run_tool_calls cs w = (w1, Inr tms)"
    and "llm (SystemMessage system_prompt # HumanMessage u # AIMessage c cs # tms) = Reply t []"
  shows "run_agent llm u w = (w1, AIMessage t [])"
proof -
  have "agent_loop llm (Suc (Suc (Suc 47))) (Suc (Suc (Suc 47))) [HumanMessage u] w =
             (w1, Inr ([HumanMessage u] @ AIMessage c cs # tms @ [AIMessage t []]))"
    by (rule agent_loop_one_round) (use assms in simp_all)
  then show ?thesis by (simp add: run_agent_def recursion_limit_def message_content_def)
qed

lemma run_tool_calls_single:
  "parse_tool_call tc = Inr op \<Longrightarrow> run_op op w = (w1, Inr v) \<Longrightarrow>
   run_tool_calls [tc] w = (w1, Inr [ToolMessage (tc_name tc) (ToolResult v)])"
  by (simp add: run_tool_call_def)

end
