(* ===== verification/Cli.thy ===== *)
theory Cli
  imports Engine
begin

text \<open>
  The two interactive loops. \<open>src/agent.py\<close> (lines 134--152) prints a
  banner, then reads a line with \<open>input("You: ").strip()\<close>, stops with
  \<open>Goodbye!\<close> when its lower-case form is \<open>quit\<close>, \<open>exit\<close> or \<open>q\<close>, and
  otherwise prints \<open>Agent: \<close>, calls \<open>run_agent\<close> and prints the reply and an
  empty line. \<open>src/main.py\<close> (lines 43--108) is the history-keeping variant
  on a plain prompt chain: \<open>run_agent(user_input, history)\<close> formats the
  template (a fixed system message, the history, and the human message
  \<open>"Here is the question to answer: " + user_input\<close>), calls the text model and
  wraps its answer; its \<open>__main__\<close> runs two loops one after the other, each
  with a fresh history, the second also stopping on an empty line.

  Standard input is the list of lines still to be read; \<open>input()\<close> at its end
  raises \<open>EOFError\<close>, which nothing catches. A loop returns the unread lines,
  the output so far, and \<open>None\<close> when it ended by \<open>break\<close> or
  \<open>Some EOFError\<close>. The text model of \<open>main.py\<close> is a parameter that is
  given the messages after the template's system message (whose text contains
  a character outside Latin-1 and is part of the parameter) and answers a
  completion or fails with a message.
\<close>

type_synonym text_model = "message list \<Rightarrow> pystr + pystr"

definition rule_line :: pystr where
  "rule_line = replicate 60 (CHR ''='')"

definition print_text :: "pystr \<Rightarrow> pystr \<Rightarrow> pystr" where
  "print_text out s = out @ s @ ''\<newline>''"

subsection \<open>\<open>agent.py\<close>'s loop\<close>

definition agent_banner :: pystr where
  "agent_banner = concat (map (\<lambda>s. s @ ''\<newline>'')
     [rule_line, ''DevHelper Agent (with Calculator & Notes Tools)'', rule_line,
      ''... (Startup messages) ...'', rule_line])"

definition exit_commands :: "pystr list" where
  "exit_commands = [''quit'', ''exit'', ''q'']"

definition is_exit_command :: "pystr list \<Rightarrow> pystr \<Rightarrow> bool" where
  "is_exit_command cmds u = (py_lower u \<in> set cmds)"

fun agent_repl :: "chat_model \<Rightarrow> pystr list \<Rightarrow> world \<Rightarrow> world \<times> pystr list \<times> py_exc option" where
  "agent_repl llm [] w = (w\<lparr>stdout := stdout w @ ''You: ''\<rparr>, [], Some EOFError)"
| "agent_repl llm (l # ls) w =
     (let w1 = w\<lparr>stdout := stdout w @ ''You: ''\<rparr>; u = py_strip l in
      if is_exit_command exit_commands u then (print_line ''Goodbye!'' w1, ls, None)
      else (let (w2, r) = run_agent llm u (w1\<lparr>stdout := stdout w1 @ ''Agent: ''\<rparr>)
            in agent_repl llm ls (print_line [] (print_line (message_content r) w2))))"

definition agent_main :: "chat_model \<Rightarrow> pystr list \<Rightarrow> world \<Rightarrow> world \<times> pystr list \<times> py_exc option" where
  "agent_main llm inp w = agent_repl llm inp (w\<lparr>stdout := stdout w @ agent_banner\<rparr>)"

subsection \<open>\<open>main.py\<close>\<close>

definition question_prefix :: pystr where
  "question_prefix = ''Here is the question to answer: ''"

definition chat_run_agent :: "text_model \<Rightarrow> pystr \<Rightarrow> message list \<Rightarrow> message" where
  "chat_run_agent m u h =
     (case m (h @ [HumanMessage (question_prefix @ u)]) of
        Inr t \<Rightarrow> AIMessage t []
      | Inl e \<Rightarrow> AIMessage (error_reply e) [])"

definition main_banner :: pystr where
  "main_banner = concat (map (\<lambda>s. s @ ''\<newline>'')
     [rule_line, ''DevHelper Agent'', rule_line,
      ''An interactive developer assistant for reviewing, debugging, '',
      ''and improving code. Ask anything related to software development.'',
      '''', ''Examples:'',
      ''  - Review this function and suggest improvements'',
      ''  - Explain why this FastAPI route throws an error'',
      ''  - Refactor this class into a cleaner architecture'',
      ''  - Help me design a database model for my service'',
      '''', ''Commands: '' @ [quote_char] @ ''quit'' @ [quote_char] @ '' or '' @ [quote_char] @ ''exit''
            @ [quote_char] @ '' to end'',
      rule_line])"

definition second_exit_commands :: "pystr list" where
  "second_exit_commands = [''quit'', ''exit'', ''q'', '''']"

fun chat_repl ::
  "pystr list \<Rightarrow> text_model \<Rightarrow> pystr list \<Rightarrow> pystr \<Rightarrow> message list
   \<Rightarrow> pystr list \<times> pystr \<times> message list \<times> py_exc option" where
  "chat_repl cmds m [] out h = ([], out @ ''You: '', h, Some EOFError)"
| "chat_repl cmds m (l # ls) out h =
     (let u = py_strip l; out1 = out @ ''You: '' in
      if is_exit_command cmds u then (ls, print_text out1 ''Goodbye!'', h, None)
      else (let r = chat_run_agent m u h
            in chat_repl cmds m ls (print_text (print_text (out1 @ ''Agent: '') (message_content r)) [])
                 (h @ [HumanMessage u, r])))"

definition main_program :: "text_model \<Rightarrow> pystr list \<Rightarrow> pystr \<times> py_exc option" where
  "main_program m inp =
     (case chat_repl exit_commands m inp main_banner [] of
        (ls, out, h, Some e) \<Rightarrow> (out, Some e)
      | (ls, out, h, None) \<Rightarrow>
          (case chat_repl second_exit_commands m ls out [] of (ls', out', h', r) \<Rightarrow> (out', r)))"

subsection \<open>Specification-level vocabulary\<close>

text \<open>
  \<open>case_variant v cmd\<close>: \<open>v\<close> spells the lower-case ASCII word \<open>cmd\<close> with
  any letters in upper case. \<open>chat_reachable m\<close>: the histories main.py's loop
  can build from the empty one, one whole exchange at a time;
  \<open>alternating\<close>: a history made of (human message, reply without tool calls)
  pairs. \<open>agent_turns llm ls w\<close>: the world after one agent turn per line of
  \<open>ls\<close>, each turn printing the prompts, running \<open>run_agent\<close> on the
  stripped line and printing its reply and a blank line.
\<close>

definition case_variant :: "pystr \<Rightarrow> pystr \<Rightarrow> bool" where
  "case_variant v cmd = list_all2 (\<lambda>c d. c = d \<or> c = char_of (of_char d - (32::nat))) v cmd"

definition lower_ascii_word :: "pystr \<Rightarrow> bool" where
  "lower_ascii_word w = list_all (\<lambda>d. let n = (of_char d :: nat) in 97 \<le> n \<and> n \<le> 122) w"


inductive chat_reachable :: "text_model \<Rightarrow> message list \<Rightarrow> bool" for m where
  start: "chat_reachable m []"
| turn: "chat_reachable m h \<Longrightarrow> chat_reachable m (h @ [HumanMessage u, chat_run_agent m u h])"

fun alternating :: "message list \<Rightarrow> bool" where
  "alternating [] = True"
| "alternating (HumanMessage u # AIMessage c cs # rest) = (cs = [] \<and> alternating rest)"
| "alternating _ = False"

fun agent_turns :: "chat_model \<Rightarrow> pystr list \<Rightarrow> world \<Rightarrow> world" where
  "agent_turns llm [] w = w"
| "agent_turns llm (l # ls) w =
     (case run_agent llm (py_strip l) (w\<lparr>stdout := stdout w @ ''You: Agent: ''\<rparr>) of
        (w1, r) \<Rightarrow> agent_turns llm ls (w1\<lparr>stdout := stdout w1 @ message_content r @ ''\<newline>\<newline>''\<rparr>))"


subsection \<open>Properties of the loops\<close>
lemma lower_ascii_word_Cons:
  "lower_ascii_word (d # w) \<longleftrightarrow> ((97::nat) \<le> of_char d \<and> of_char d \<le> (122::nat)) \<and> lower_ascii_word w"
  by (simp add: lower_ascii_word_def Let_def)

lemma case_variant_simps [simp]:
  "case_variant [] w \<longleftrightarrow> w = []"
  "case_variant v [] \<longleftrightarrow> v = []"
  "case_variant (c # v) (d # w) \<longleftrightarrow> (c = d \<or> c = char_of (of_char d - (32::nat))) \<and> case_variant v w"
  by (auto simp: case_variant_def)

lemma map_lower_case_variant:
  "lower_ascii_word w \<Longrightarrow> map py_lower_char v = w \<longleftrightarrow> case_variant v w"
proof (induction w arbitrary: v)
  case Nil
  then show ?case by simp
next
  case (Cons d w)
  then have d: "(97::nat) \<le> of_char d" "of_char d \<le> (122::nat)" and w: "lower_ascii_word w"
    by (simp_all add: lower_ascii_word_Cons)
  show ?case
  proof (cases v)
    case Nil
    then show ?thesis by simp
  next
    case (Cons c v')
    with Cons.IH [OF w] py_lower_char_ascii_lower [OF d, of c] show ?thesis by simp
  qed
qed

lemma case_variant_not_space:
  "lower_ascii_word w \<Longrightarrow> case_variant v w \<Longrightarrow> list_all (\<lambda>c. \<not> py_isspace c) v"
proof (induction w arbitrary: v)
  case Nil
  then show ?case by simp
next
  case (Cons d w)
  then have d: "(97::nat) \<le> of_char d" "of_char d \<le> (122::nat)" and w: "lower_ascii_word w"
    by (simp_all add: lower_ascii_word_Cons)
  from Cons.prems(2) obtain c v' where v: "v = c # v'"
    and c: "c = d \<or> c = char_of (of_char d - (32::nat))" and cv: "case_variant v' w"
    by (cases v) auto
  from c d have "(65::nat) \<le> of_char c \<and> of_char c \<le> (122::nat)" by (auto simp: of_char_of)
  then have "\<not> py_isspace c" by (simp add: py_isspace_def Let_def)
  with Cons.IH [OF w cv] v show ?case by simp
qed

lemma exit_words_lower: "cmd \<in> set exit_commands \<Longrightarrow> lower_ascii_word cmd"
  by (auto simp: exit_commands_def lower_ascii_word_def)


text \<open>C13: a line read by either loop ends it exactly when it is one of the exit words, in any
  mix of upper and lower case, surrounded only by whitespace.\<close>

theorem exit_command_iff:
  "is_exit_command exit_commands (py_strip l) \<longleftrightarrow>
   (\<exists>pre v post cmd. l = pre @ v @ post \<and> list_all py_isspace pre \<and> list_all py_isspace post
      \<and> cmd \<in> set exit_commands \<and> case_variant v cmd)"
proof
  assume "is_exit_command exit_commands (py_strip l)"
  then obtain cmd where cmd: "cmd \<in> set exit_commands" and "map py_lower_char (py_strip l) = cmd"
    by (auto simp: is_exit_command_def py_lower_def)
  with exit_words_lower [OF cmd] have "case_variant (py_strip l) cmd"
    by (simp add: map_lower_case_variant)
  moreover obtain pre post where "l = pre @ py_strip l @ post"
    and "list_all py_isspace pre" and "list_all py_isspace post"
    using py_strip_decomp by blast
  ultimately show "\<exists>pre v post cmd. l = pre @ v @ post \<and> list_all py_isspace pre \<and>
      list_all py_isspace post \<and> cmd \<in> set exit_commands \<and> case_variant v cmd"
    using cmd by blast
next
  assume "\<exists>pre v post cmd. l = pre @ v @ post \<and> list_all py_isspace pre \<and> list_all py_isspace post
      \<and> cmd \<in> set exit_commands \<and> case_variant v cmd"
  then obtain pre v post cmd where l: "l = pre @ v @ post" and pre: "list_all py_isspace pre"
    and post: "list_all py_isspace post" and cmd: "cmd \<in> set exit_commands"
    and cv: "case_variant v cmd" by blast
  have lw: "lower_ascii_word cmd" by (rule exit_words_lower [OF cmd])
  have ns: "list_all (\<lambda>c. \<not> py_isspace c) v" by (rule case_variant_not_space [OF lw cv])
  have "v \<noteq> []" using cv cmd by (auto simp: exit_commands_def)
  with ns have "\<not> py_isspace (hd v) \<and> \<not> py_isspace (last v)"
    by (simp add: list_all_iff)
  then have "py_strip l = v" using py_strip_pad [OF pre post] l by blast
  with cv lw cmd show "is_exit_command exit_commands (py_strip l)"
    by (auto simp: is_exit_command_def py_lower_def map_lower_case_variant [symmetric])
qed

lemma alternating_append:
  "alternating xs \<Longrightarrow> alternating ys \<Longrightarrow> alternating (xs @ ys)"
  by (induction xs rule: alternating.induct) auto

lemma chat_run_agent_reply: "\<exists>c. chat_run_agent m u h = AIMessage c []"
  by (auto simp: chat_run_agent_def split: sum.splits)

lemma chat_reachable_alternating: "chat_reachable m h \<Longrightarrow> alternating h"
proof (induction rule: chat_reachable.induct)
  case start
  then show ?case by simp
next
  case (turn h u)
  obtain c where "chat_run_agent m u h = AIMessage c []" using chat_run_agent_reply by blast
  with turn.IH show ?case by (simp add: alternating_append)
qed

lemma chat_repl_reachable:
  "chat_reachable m h \<Longrightarrow> chat_repl cmds m inp out h = (ls', out', h', r) \<Longrightarrow> chat_reachable m h'"
proof (induction cmds m inp out h rule: chat_repl.induct)
  case (1 cmds m out h)
  then show ?case by simp
next
  case (2 cmds m l ls out h)
  show ?case
  proof (cases "is_exit_command cmds (py_strip l)")
    case True
    with "2.prems" show ?thesis by (simp add: Let_def)
  next
    case False
    have reach: "chat_reachable m (h @ [HumanMessage (py_strip l), chat_run_agent m (py_strip l) h])"
      using "2.prems"(1) by (rule chat_reachable.turn)
    show ?thesis
      by (rule "2.IH" [OF refl refl False refl reach]) (use False "2.prems"(2) in \<open>simp add: Let_def\<close>)
  qed
qed

lemma chat_repl_stops:
  "(\<forall>l \<in> set ls. \<not> is_exit_command cmds (py_strip l)) \<Longrightarrow> is_exit_command cmds (py_strip q) \<Longrightarrow>
   \<exists>pre h'. chat_repl cmds m (ls @ q # rest) out h = (rest, pre @ ''You: Goodbye!\<newline>'', h', None)"
proof (induction ls arbitrary: out h)
  case Nil
  then show ?case by (simp add: print_text_def)
next
  case (Cons l ls)
  then show ?case by (simp add: Let_def)
qed

lemma agent_repl_turns:
  "(\<forall>l \<in> set ls. \<not> is_exit_command exit_commands (py_strip l)) \<Longrightarrow>
   is_exit_command exit_commands (py_strip q) \<Longrightarrow>
   agent_repl llm (ls @ q # rest) w =
     (print_line ''Goodbye!'' ((agent_turns llm ls w)\<lparr>stdout := stdout (agent_turns llm ls w) @ ''You: ''\<rparr>),
      rest, None)"
proof (induction ls arbitrary: w)
  case Nil
  then show ?case by simp
next
  case (Cons l ls)
  then show ?case by (simp add: Let_def print_line_def split: prod.split)
qed


theorem exit_command_iff_witness:
  "is_exit_command exit_commands (py_strip '' QuIt\<newline>'') \<and>
   '' QuIt\<newline>'' = '' '' @ ''QuIt'' @ ''\<newline>'' \<and> list_all py_isspace '' '' \<and> list_all py_isspace ''\<newline>'' \<and>
   ''quit'' \<in> set exit_commands \<and> case_variant ''QuIt'' ''quit''"
proof -
  have r: "'' QuIt\<newline>'' = '' '' @ ''QuIt'' @ ''\<newline>'' \<and> list_all py_isspace '' '' \<and> list_all py_isspace ''\<newline>'' \<and>
   ''quit'' \<in> set exit_commands \<and> case_variant ''QuIt'' ''quit''"
    by code_simp
  then have "is_exit_command exit_commands (py_strip '' QuIt\<newline>'')"
    using exit_command_iff [of "'' QuIt\<newline>''"] by blast
  with r show ?thesis by blast
qed

text \<open>C11: the agent's command loop answers every line before the first exit command with one
  agent turn on the stripped line (prompt "You: ", "Agent: ", run_agent, the reply and a blank
  line), in order and on the world the previous turn left, then prints "Goodbye!" and stops,
  leaving the lines after the exit command unread.\<close>

theorem agent_main_stops_at_exit:
  assumes "\<forall>l \<in> set ls. \<not> is_exit_command exit_commands (py_strip l)"
    and "is_exit_command exit_commands (py_strip q)"
  shows "agent_main llm (ls @ q # rest) w =
           (let w' = agent_turns llm ls (w\<lparr>stdout := stdout w @ agent_banner\<rparr>)
            in (w'\<lparr>stdout := stdout w' @ ''You: Goodbye!\<newline>''\<rparr>, rest, None))"
  using agent_repl_turns [OF assms] by (simp add: agent_main_def print_line_def Let_def)

theorem agent_main_stops_at_exit_witness:
  "agent_main (\<lambda>ms. Reply ''hi'' []) ([''hello''] @ ''EXIT'' # [''unread''])
      \<lparr>notes_store = [], calc_up = True, notes_up = True, notes_keep_alive = True, stdout = []\<rparr>
   = (let w' = agent_turns (\<lambda>ms. Reply ''hi'' []) [''hello'']
                 \<lparr>notes_store = [], calc_up = True, notes_up = True, notes_keep_alive = True, stdout = agent_banner\<rparr>
      in (w'\<lparr>stdout := stdout w' @ ''You: Goodbye!\<newline>''\<rparr>, [''unread''], None))"
proof -
  have h1: "\<forall>l \<in> set [''hello'']. \<not> is_exit_command exit_commands (py_strip l)" by code_simp
  have h2: "is_exit_command exit_commands (py_strip ''EXIT'')" by code_simp
  show ?thesis
    using agent_main_stops_at_exit [OF h1 h2, of "\<lambda>ms. Reply ''hi'' []" "[''unread'']"
        "\<lparr>notes_store = [], calc_up = True, notes_up = True, notes_keep_alive = True, stdout = []\<rparr>"]
    by (simp del: agent_turns.simps)
qed

text \<open>C12: in main.py an exit command does not end the program: the first loop says "Goodbye!",
  then the second loop prompts again with an empty history, and at the end of input the
  program stops with an uncaught EOFError.\<close>

theorem main_quit_restarts:
  assumes "\<forall>l \<in> set ls. \<not> is_exit_command exit_commands (py_strip l)"
    and "is_exit_command exit_commands (py_strip q)"
  shows "\<exists>pre. main_program m (ls @ [q]) = (pre @ ''You: Goodbye!\<newline>You: '', Some EOFError)"
proof -
  from chat_repl_stops [OF assms, of m "[]" main_banner "[]"]
  obtain pre h' where "chat_repl exit_commands m (ls @ [q]) main_banner [] =
      ([], pre @ ''You: Goodbye!\<newline>'', h', None)" by auto
  then show ?thesis by (simp add: main_program_def)
qed

theorem main_quit_restarts_witness:
  "\<exists>pre. main_program (\<lambda>ms. Inr ''ok'') ([] @ [''quit'']) = (pre @ ''You: Goodbye!\<newline>You: '', Some EOFError)"
  by (rule main_quit_restarts) (simp_all add: is_exit_command_def exit_commands_def
      py_strip_def py_lstrip_def py_rstrip_def py_isspace_def py_lower_def py_lower_char_def)

text \<open>C21: the history main.py keeps is always reachable from the empty history by whole
  exchanges, and so alternates a human message and a reply without tool calls.\<close>

theorem chat_history_alternates:
  "chat_repl cmds m inp out [] = (ls', out', h', r) \<Longrightarrow> chat_reachable m h' \<and> alternating h'"
  using chat_repl_reachable [OF chat_reachable.start] chat_reachable_alternating by blast

theorem chat_history_alternates_witness:
  "chat_repl exit_commands (\<lambda>ms. Inr ''ok'') [''hi''] [] [] =
     ([], ''You: Agent: ok\<newline>\<newline>You: '', [HumanMessage ''hi'', AIMessage ''ok'' []], Some EOFError) \<and>
   chat_reachable (\<lambda>ms. Inr ''ok'') [HumanMessage ''hi'', AIMessage ''ok'' []] \<and>
   alternating [HumanMessage ''hi'', AIMessage ''ok'' []]"
proof -
  have h: "chat_repl exit_commands (\<lambda>ms. Inr ''ok'') [''hi''] [] [] =
     ([], ''You: Agent: ok\<newline>\<newline>You: '', [HumanMessage ''hi'', AIMessage ''ok'' []], Some EOFError)"
    by code_simp
  from chat_history_alternates [OF h] h show ?thesis by simp
qed

end
