(* ===== verification/Spec2Isabelle.thy ===== *)
theory Spec2Isabelle
  imports Cli
begin

text \<open>
  \<^bold>\<open>A verification development of local-agent-with-mcp.\<close>

  \<^medskip>\<^bold>\<open>The program.\<close> A command-line assistant (\<open>src/agent.py\<close>) that lets
  a local language model call six tools exposed by two FastMCP servers: the
  calculator (\<open>src/server_calculator.py\<close>: add, subtract, multiply, divide)
  and the notes server (\<open>server_notes.py\<close>, named by the code and the
  specification but not part of \<open>src/\<close>: add_note, read_notes). Each tool of
  \<open>agent.py\<close> is a LangChain adapter that prints a trace line and makes one
  remote call through a FastMCP client; \<open>create_agent\<close> runs the model and the
  tools alternately under a recursion limit of 50; \<open>run_agent\<close> turns every
  exception into a reply; the \<open>__main__\<close> loop reads lines until an exit word.
  \<open>src/main.py\<close> is an older, tool-less variant that keeps a conversation
  history and runs two loops one after the other.

  \<^medskip>\<^bold>\<open>The theories, in import order.\<close>
  \<^item> \<open>Prelude\<close>: shared vocabulary (\<open>pystr\<close>, \<open>pow2\<close>, \<open>nlog2\<close>), the named
    collections \<open>model_simps\<close> and \<open>pow2_simps\<close>, arithmetic of powers of two.
  \<^item> \<open>PyRuntime\<close>: the Python values crossing the tool boundary (\<open>pyval\<close>, a
    float as sign and exact magnitude so that \<open>-0.0\<close> is kept), the built-in
    exceptions, \<open>str.isspace\<close>/\<open>strip\<close>/\<open>lower\<close> on Latin-1 code points,
    \<open>str(int)\<close> with its inverse (\<open>parse_int_py_str_int\<close>), \<open>str.join\<close>.
  \<^item> \<open>PyFloat\<close>: Python's \<open>int / int\<close> (\<open>int_true_div\<close>): the correctly
    rounded binary64 quotient, ties to even, gradual underflow, OverflowError
    when the rounded value reaches \<open>2\<^sup>1\<^sup>0\<^sup>2\<^sup>4\<close>. Proved: the result is
    nearest to \<open>a/b\<close> among all \<open>m * 2\<^sup>j\<close> with \<open>|m| < 2\<^sup>5\<^sup>3\<close>,
    \<open>j \<ge> -1074\<close> (\<open>int_true_div_nearest\<close>), and exact quotients are returned
    exactly (\<open>int_true_div_exact\<close>).
  \<^item> \<open>Mcp\<close>: the FastMCP call boundary: arguments, server-side errors.
  \<^item> \<open>Calculator\<close>: \<open>server_calculator.py\<close>: \<open>add\<close>, \<open>subtract\<close>,
    \<open>multiply\<close>, \<open>divide'\<close> (\<open>divide\<close> is HOL's division), the registry
    \<open>calculator_tools\<close> and the dispatch \<open>calculator_call\<close>.
  \<^item> \<open>Notes\<close>: \<open>server_notes.py\<close>, modelled from the specification: an
    append-only list, \<open>add_note\<close>, \<open>read_notes\<close> (join with newlines, a fixed
    message when empty), \<open>notes_call\<close>.
  \<^item> \<open>Adapter\<close>: \<open>agent.py\<close> lines 12--90. The state is the record \<open>world\<close>:
    the notes server's list, whether each server can be reached, whether the
    notes process survives between connections (\<open>notes_keep_alive\<close>), and
    standard output. \<open>call_tool\<close> is one \<open>async with client: call_tool\<close>;
    \<open>add_tool\<close> \<dots> \<open>read_notes_tool\<close> are the six adapters; \<open>tool_op\<close> and
    \<open>run_op\<close> are the closed set of operations and their dispatch.
  \<^item> \<open>Engine\<close>: \<open>agent.py\<close> lines 90--131. The language model is a parameter
    (\<open>chat_model\<close>, from the messages it is shown to its reply). The tools node
    (\<open>parse_tool_call\<close>, \<open>run_tool_call\<close>, \<open>run_tool_calls\<close>), the graph
    (\<open>agent_loop\<close>, with the recursion limit as its fuel) and \<open>run_agent\<close>.
  \<^item> \<open>Cli\<close>: \<open>agent.py\<close> lines 134--152 (\<open>agent_repl\<close>, \<open>agent_main\<close>) and
    \<open>main.py\<close> (\<open>chat_run_agent\<close>, \<open>chat_repl\<close>, \<open>main_program\<close>);
    standard input is the list of lines still to be read.
  \<^item> This theory: the specification's end-to-end scenarios.

  \<^medskip>\<^bold>\<open>What is proved.\<close> For the calculator: exact integer arithmetic, the
  division-by-zero string as a normal result, and for \<open>divide\<close>: correct
  rounding, exactness, a finite double as every float result, and
  \<open>OverflowError\<close> exactly when \<open>|a/b| \<ge> 2\<^sup>1\<^sup>0\<^sup>2\<^sup>4 - 2\<^sup>9\<^sup>7\<^sup>0\<close>. For the adapters: a transport failure is an exception and never
  a value, exactly one trace line per call and the trace identifies the call,
  and notes read back in insertion order. For the engine: a finished turn is
  the user's message, rounds of tool requests each answered by one tool
  message per call in order, and a final answer; at most 24 tool rounds; a
  model that never stops requesting tools ends in the recursion-limit or
  tool-failure reply; model and tool failures become
  \<open>"Error: ... Try phrasing it differently."\<close>. For the loops: the exact
  set of lines that end them; \<open>agent.py\<close>'s loop is one agent turn per line
  up to the first exit word (\<open>agent_turns\<close>) and leaves the rest unread;
  \<open>main.py\<close>'s restart after the first exit word, and the
  alternation of \<open>main.py\<close>'s history (an inductive reachability relation
  and an invariant by rule induction). Here: the three scenarios of the
  specification.

  \<^medskip>\<^bold>\<open>Bounds and fuel.\<close> The only fuel is the source's own recursion
  limit (50 supersteps, one per model step and one per tools step), so the
  graph function is total by structural recursion on it and the bound of 24
  tool rounds is a theorem, not a modelling choice. The loops recurse on the
  list of input lines. Integers are unbounded, as in Python; floats are exact
  rationals rounded as binary64.

  \<^medskip>\<^bold>\<open>Not modelled.\<close> The language model's behaviour (a parameter); the
  text rendering of tool results for the model (tool messages carry the
  structured result); the FastMCP wire protocol and process management beyond
  reachability and keep-alive; the text of the library's exception messages
  (each exception class has a fixed text, only its place in the reply is
  used); pydantic's coercion of numeric strings and booleans to \<open>int\<close>;
  characters outside Latin-1; the \<open>repr\<close> of floats; environment loading and
  the banners' emoji lines of the start-up block; concurrency (the code makes
  one blocking call at a time).
\<close>

section \<open>Scenarios of the specification, end to end\<close>

text \<open>
  The tool calls the model issues in the three scenarios of the
  specification's section 8. The model itself stays a parameter: each theorem
  says what the code hands to the model and what it returns, for any model
  that issues these calls.
\<close>

definition multiply_7_6 :: tool_call where
  "multiply_7_6 = ToolCall ''multiply'' [(''a'', JInt 7), (''b'', JInt 6)]"


definition divide_5_0 :: tool_call where
  "divide_5_0 = ToolCall ''divide'' [(''a'', JInt 5), (''b'', JInt 0)]"

definition note_call :: "pystr \<Rightarrow> tool_call" where
  "note_call m = ToolCall ''add_note'' [(''message'', JStr m)]"

definition read_call :: tool_call where
  "read_call = ToolCall ''read_notes'' []"


lemma run_note_call:
  "notes_up w \<Longrightarrow> notes_keep_alive w \<Longrightarrow>
   run_tool_calls [note_call m] w =
     (print_line (trace_line (op_text (AddNote m))) w\<lparr>notes_store := notes_store w @ [m]\<rparr>,
      Inr [ToolMessage ''add_note'' (ToolResult (PyStr note_added_msg))])"
  by (simp add: note_call_def run_tool_call_def parse_tool_call_def coerce_str_def add_note_tool_kept)

lemma run_read_call:
  "notes_up w \<Longrightarrow> notes_keep_alive w \<Longrightarrow>
   run_tool_calls [read_call] w =
     (print_line (trace_line ''read_notes()'') w,
      Inr [ToolMessage ''read_notes'' (ToolResult (read_notes (notes_store w)))])"
  by (simp add: read_call_def run_tool_call_def parse_tool_call_def read_notes_tool_def call_tool_def
      notes_call_def print_line_def)

text \<open>C15: end to end, "what is 7 times 6?": when the model asks for multiply(7, 6), the
  calculator's answer reaches the model as the integer 42, one trace line is printed, and the
  model's final message is the reply.\<close>

theorem e2e_multiply:
  assumes "calc_up w"
    and "llm [SystemMessage system_prompt, HumanMessage u] = Reply c [multiply_7_6]"
    and "llm [SystemMessage system_prompt, HumanMessage u, AIMessage c [multiply_7_6],
              ToolMessage ''multiply'' (ToolResult (PyInt 42))] = Reply t []"
  shows "run_agent llm u w = (print_line (trace_line ''multiply(7, 6)'') w, AIMessage t [])"
proof (rule run_agent_one_round [where llm = llm and u = u and c = c and cs = "[multiply_7_6]"])
  have "parse_tool_call multiply_7_6 = Inr (Multiply 7 6)"
    by (simp add: multiply_7_6_def parse_tool_call_def binary_op_def int_pair_arg_def coerce_int_def)
  moreover have "int_pair_text ''multiply'' 7 6 = ''multiply(7, 6)''" by code_simp
  then have "run_op (Multiply 7 6) w = (print_line (trace_line ''multiply(7, 6)'') w, Inr (PyInt 42))"
    using assms(1) by (simp add: multiply_tool_def call_tool_def calculator_call_def calculator_tools_def
        multiply_def print_line_def)
  ultimately have "run_tool_calls [multiply_7_6] w =
     (print_line (trace_line ''multiply(7, 6)'') w,
      Inr [ToolMessage (tc_name multiply_7_6) (ToolResult (PyInt 42))])"
    by (rule run_tool_calls_single)
  then show "run_tool_calls [multiply_7_6] w =
     (print_line (trace_line ''multiply(7, 6)'') w, Inr [ToolMessage ''multiply'' (ToolResult (PyInt 42))])"
    by (simp add: multiply_7_6_def)
qed (use assms in simp_all)

text \<open>C16: end to end, "divide 5 by 0": the divide tool's answer reaches the model as a
  successful tool result holding exactly the string "Error: Cannot divide by zero."; the turn
  does not fail and the model's final message is the reply.\<close>

theorem e2e_divide_by_zero:
  assumes "calc_up w"
    and "llm [SystemMessage system_prompt, HumanMessage u] = Reply c [divide_5_0]"
    and "llm [SystemMessage system_prompt, HumanMessage u, AIMessage c [divide_5_0],
              ToolMessage ''divide'' (ToolResult (PyStr ''Error: Cannot divide by zero.''))] = Reply t []"
  shows "run_agent llm u w = (print_line (trace_line ''divide(5, 0)'') w, AIMessage t [])"
proof (rule run_agent_one_round [where llm = llm and u = u and c = c and cs = "[divide_5_0]"])
  have "parse_tool_call divide_5_0 = Inr (Divide 5 0)"
    by (simp add: divide_5_0_def parse_tool_call_def binary_op_def int_pair_arg_def coerce_int_def)
  moreover have "int_pair_text ''divide'' 5 0 = ''divide(5, 0)''" by code_simp
  then have "run_op (Divide 5 0) w =
      (print_line (trace_line ''divide(5, 0)'') w, Inr (PyStr ''Error: Cannot divide by zero.''))"
    using assms(1) by (simp add: divide_tool_def call_tool_def calculator_call_def calculator_tools_def
        divide'_def divide_by_zero_msg_def print_line_def)
  ultimately have "run_tool_calls [divide_5_0] w =
     (print_line (trace_line ''divide(5, 0)'') w,
      Inr [ToolMessage (tc_name divide_5_0) (ToolResult (PyStr ''Error: Cannot divide by zero.''))])"
    by (rule run_tool_calls_single)
  then show "run_tool_calls [divide_5_0] w =
     (print_line (trace_line ''divide(5, 0)'') w,
      Inr [ToolMessage ''divide'' (ToolResult (PyStr ''Error: Cannot divide by zero.''))])"
    by (simp add: divide_5_0_def)
qed (use assms in simp_all)


text \<open>C17: end to end, "remember ..." then "what did I ask you to remember?": with a notes
  server that stays alive, when the first turn's model stores a note m and the second turn's
  model reads the notes, the second model call is shown the notes ending with m, and its final
  message is the second reply.\<close>

theorem e2e_remember_recall:
  assumes "notes_up w" and "notes_keep_alive w"
    and "llm [SystemMessage system_prompt, HumanMessage u1] = Reply c1 [note_call m]"
    and "llm [SystemMessage system_prompt, HumanMessage u1, AIMessage c1 [note_call m],
              ToolMessage ''add_note'' (ToolResult (PyStr note_added_msg))] = Reply t1 []"
    and "llm [SystemMessage system_prompt, HumanMessage u2] = Reply c2 [read_call]"
    and "llm [SystemMessage system_prompt, HumanMessage u2, AIMessage c2 [read_call],
              ToolMessage ''read_notes'' (ToolResult (read_notes (notes_store w @ [m])))] = Reply t2 []"
  shows "snd (run_agent llm u1 w) = AIMessage t1 [] \<and>
         snd (run_agent llm u2 (fst (run_agent llm u1 w))) = AIMessage t2 []"
proof -
  let ?w1 = "print_line (trace_line (op_text (AddNote m))) w\<lparr>notes_store := notes_store w @ [m]\<rparr>"
  have r1: "run_agent llm u1 w = (?w1, AIMessage t1 [])"
    by (rule run_agent_one_round [where llm = llm and u = u1 and c = c1 and cs = "[note_call m]"])
       (use assms in \<open>simp_all add: run_note_call del: run_tool_calls.simps\<close>)
  have up: "notes_up ?w1" "notes_keep_alive ?w1" "notes_store ?w1 = notes_store w @ [m]"
    using assms(1,2) by (simp_all add: print_line_def)
  have "run_agent llm u2 ?w1 = (print_line (trace_line ''read_notes()'') ?w1, AIMessage t2 [])"
    by (rule run_agent_one_round [where llm = llm and u = u2 and c = c2 and cs = "[read_call]"])
       (use assms up in \<open>simp_all add: run_read_call del: run_tool_calls.simps\<close>)
  with r1 show ?thesis by simp
qed

subsection \<open>Witnesses\<close>

theorem e2e_multiply_witness:
  "run_agent (\<lambda>ms. if ms = [SystemMessage system_prompt, HumanMessage ''what is 7 times 6?'']
                    then Reply [] [multiply_7_6] else Reply ''7 times 6 is 42.'' [])
     ''what is 7 times 6?''
     \<lparr>notes_store = [], calc_up = True, notes_up = True, notes_keep_alive = True, stdout = []\<rparr> =
   (print_line (trace_line ''multiply(7, 6)'')
      \<lparr>notes_store = [], calc_up = True, notes_up = True, notes_keep_alive = True, stdout = []\<rparr>,
    AIMessage ''7 times 6 is 42.'' [])"
  by (rule e2e_multiply) simp_all

theorem e2e_divide_by_zero_witness:
  "run_agent (\<lambda>ms. if ms = [SystemMessage system_prompt, HumanMessage ''divide 5 by 0'']
                    then Reply [] [divide_5_0] else Reply ''You cannot divide by zero.'' [])
     ''divide 5 by 0''
     \<lparr>notes_store = [], calc_up = True, notes_up = True, notes_keep_alive = True, stdout = []\<rparr> =
   (print_line (trace_line ''divide(5, 0)'')
      \<lparr>notes_store = [], calc_up = True, notes_up = True, notes_keep_alive = True, stdout = []\<rparr>,
    AIMessage ''You cannot divide by zero.'' [])"
  by (rule e2e_divide_by_zero) simp_all

theorem e2e_remember_recall_witness:
  "snd (run_agent (\<lambda>ms. case ms of
           [_, HumanMessage q] \<Rightarrow> if q = ''remember the key'' then Reply [] [note_call ''key''] else Reply [] [read_call]
         | _ \<Rightarrow> Reply ''done'' [])
     ''remember the key''
     \<lparr>notes_store = [], calc_up = True, notes_up = True, notes_keep_alive = True, stdout = []\<rparr>)
     = AIMessage ''done'' [] \<and>
   snd (run_agent (\<lambda>ms. case ms of
           [_, HumanMessage q] \<Rightarrow> if q = ''remember the key'' then Reply [] [note_call ''key''] else Reply [] [read_call]
         | _ \<Rightarrow> Reply ''done'' [])
     ''what did I ask?''
     (fst (run_agent (\<lambda>ms. case ms of
           [_, HumanMessage q] \<Rightarrow> if q = ''remember the key'' then Reply [] [note_call ''key''] else Reply [] [read_call]
         | _ \<Rightarrow> Reply ''done'' [])
     ''remember the key''
     \<lparr>notes_store = [], calc_up = True, notes_up = True, notes_keep_alive = True, stdout = []\<rparr>)))
     = AIMessage ''done'' []"
  by (rule e2e_remember_recall) simp_all

end
